theory Spec2Isabelle
  imports Complex_Main "HOL-Library.Monad_Syntax"
begin

section \<open>Household expense tracker: distribution and monthly-amount logic of app.py\<close>

text \<open>
  Conventions of the embedding.
  \<^item> Python \<open>int\<close> is \<open>int\<close>; a Python \<open>float\<close> (SQLite \<open>REAL\<close>) that is a number is a
    \<open>real\<close>, so arithmetic on numbers is exact, without the rounding of doubles.
  \<^item> SQL \<open>NULL\<close> / Python \<open>None\<close> in a nullable column is \<open>None\<close> of an option type.
    In a data frame a \<open>NULL\<close> can also be read as the float \<open>NaN\<close>: the cells of its
    nullable numeric columns, and what is computed from them, are of the type \<open>flotante\<close>.
  \<^item> A raised exception is the value \<open>None\<close> of the option monad.
  \<^item> A table is the list of its rows; the connection \<open>conn\<close> is the record \<open>db\<close> of
    the five tables, passed in and (for writes) returned.
\<close>

subsection \<open>Python's \<open>datetime.date\<close> and \<open>calendar.monthrange\<close>\<close>

text \<open>
  A \<open>date\<close> is represented by its proleptic Gregorian ordinal (\<open>date.toordinal()\<close>,
  1 for 0001-01-01), which is what the library compares, and adds \<open>timedelta\<close> days to.
\<close>

definition MINYEAR :: int where "MINYEAR = 1"
definition MAXYEAR :: int where "MAXYEAR = 9999"

text \<open>\<open>date.max.toordinal()\<close>, the ordinal of 9999-12-31.\<close>
definition MAXORDINAL :: int where "MAXORDINAL = 3652059"

definition is_leap :: "int \<Rightarrow> bool" where
  "is_leap year = (year mod 4 = 0 \<and> (year mod 100 \<noteq> 0 \<or> year mod 400 = 0))"

definition days_before_year :: "int \<Rightarrow> int" where
  "days_before_year year =
     (let y = year - 1 in y * 365 + y div 4 - y div 100 + y div 400)"

text \<open>The tables \<open>_DAYS_IN_MONTH\<close> and \<open>_DAYS_BEFORE_MONTH\<close>, read for months 1 to 12 only.\<close>
definition DAYS_IN_MONTH :: "int \<Rightarrow> int" where
  "DAYS_IN_MONTH month =
     (if month = 2 then 28
      else if month = 4 \<or> month = 6 \<or> month = 9 \<or> month = 11 then 30 else 31)"

definition DAYS_BEFORE_MONTH :: "int \<Rightarrow> int" where
  "DAYS_BEFORE_MONTH month =
     (if month = 1 then 0 else if month = 2 then 31 else if month = 3 then 59
      else if month = 4 then 90 else if month = 5 then 120 else if month = 6 then 151
      else if month = 7 then 181 else if month = 8 then 212 else if month = 9 then 243
      else if month = 10 then 273 else if month = 11 then 304 else 334)"

definition days_in_month :: "int \<Rightarrow> int \<Rightarrow> int" where
  "days_in_month year month =
     (if month = 2 \<and> is_leap year then 29 else DAYS_IN_MONTH month)"

definition days_before_month :: "int \<Rightarrow> int \<Rightarrow> int" where
  "days_before_month year month =
     DAYS_BEFORE_MONTH month + (if month > 2 \<and> is_leap year then 1 else 0)"

definition ymd2ord :: "int \<Rightarrow> int \<Rightarrow> int \<Rightarrow> int" where
  "ymd2ord year month day = days_before_year year + days_before_month year month + day"

text \<open>\<open>date(year, month, day)\<close>: \<open>ValueError\<close> outside the supported range.\<close>
definition date :: "int \<Rightarrow> int \<Rightarrow> int \<Rightarrow> int option" where
  "date year month day =
     (if \<not> (MINYEAR \<le> year \<and> year \<le> MAXYEAR) then None
      else if \<not> (1 \<le> month \<and> month \<le> 12) then None
      else if \<not> (1 \<le> day \<and> day \<le> days_in_month year month) then None
      else Some (ymd2ord year month day))"

text \<open>\<open>d.weekday()\<close>: Monday is 0, Sunday is 6.\<close>
definition weekday :: "int \<Rightarrow> int" where
  "weekday d = (d + 6) mod 7"

text \<open>\<open>d + timedelta(days=n)\<close>: \<open>OverflowError\<close> when the result leaves the range.\<close>
definition date_add :: "int \<Rightarrow> int \<Rightarrow> int option" where
  "date_add d n = (if 0 < d + n \<and> d + n \<le> MAXORDINAL then Some (d + n) else None)"

text \<open>\<open>calendar.monthrange(year, month)[1]\<close>: \<open>IllegalMonthError\<close> for a bad month.\<close>
definition monthrange_ndays :: "int \<Rightarrow> int \<Rightarrow> int option" where
  "monthrange_ndays year month =
     (if \<not> (1 \<le> month \<and> month \<le> 12) then None
      else Some (DAYS_IN_MONTH month + (if month = 2 \<and> is_leap year then 1 else 0)))"

subsection \<open>Weeks of a month and frequency conversion\<close>

text \<open>
  The loop \<open>while fecha_actual <= ultimo_dia: semanas += 1; fecha_actual += timedelta(days=7)\<close>
  of \<open>calcular_semanas_del_mes\<close>, with the state \<open>(semanas, fecha_actual)\<close>.
\<close>
function contar_semanas :: "int \<Rightarrow> int \<Rightarrow> int \<Rightarrow> int option" where
  "contar_semanas ultimo_dia semanas fecha_actual =
     (if fecha_actual \<le> ultimo_dia then
        (if 0 < fecha_actual + 7 \<and> fecha_actual + 7 \<le> MAXORDINAL
         then contar_semanas ultimo_dia (semanas + 1) (fecha_actual + 7)
         else None)
      else Some semanas)"
  by pat_completeness auto
termination
  by (relation "measure (\<lambda>(u, s, f). nat (u + 1 - f))") auto

declare contar_semanas.simps [simp del]

definition calcular_semanas_del_mes :: "int \<Rightarrow> int \<Rightarrow> int option" where
  "calcular_semanas_del_mes mes anio =
     do {
       primer_dia \<leftarrow> date anio mes 1;
       ndias \<leftarrow> monthrange_ndays anio mes;
       ultimo_dia \<leftarrow> date anio mes ndias;
       primer_lunes \<leftarrow>
         (if weekday primer_dia = 0 then Some primer_dia
          else
            let dias_hasta_lunes = (7 - weekday primer_dia) mod 7;
                dias_hasta_lunes = (if dias_hasta_lunes = 0 then 7 else dias_hasta_lunes)
            in date_add primer_dia dias_hasta_lunes);
       if primer_lunes > ultimo_dia then Some 0
       else contar_semanas ultimo_dia 0 primer_lunes
     }"

definition calcular_monto_mensual_segun_frecuencia ::
  "real \<Rightarrow> string \<Rightarrow> int \<Rightarrow> int \<Rightarrow> real option" where
  "calcular_monto_mensual_segun_frecuencia monto_base frecuencia mes anio =
     (if frecuencia = ''Semanal'' then
        do {
          semanas \<leftarrow> calcular_semanas_del_mes mes anio;
          Some (monto_base * real_of_int semanas)
        }
      else if frecuencia = ''Quincenal'' then Some (monto_base * 2)
      else if frecuencia = ''Anual'' then Some (monto_base / 12)
      else Some monto_base)"

text \<open>
  The month and year for which every date the week count touches is representable:
  a month of a year from 1 to 9999, December 9999 apart (there the loop steps past
  \<open>date.max\<close>).
\<close>
definition fecha_soportada :: "int \<Rightarrow> int \<Rightarrow> bool" where
  "fecha_soportada mes anio =
     (1 \<le> mes \<and> mes \<le> 12 \<and> 1 \<le> anio \<and> anio \<le> 9999 \<and> \<not> (anio = 9999 \<and> mes = 12))"

subsection \<open>The tables\<close>

text \<open>
  One record per table of \<open>conectar_db\<close>. The columns \<open>fecha_creacion\<close>,
  \<open>fecha_registro\<close> and \<open>fecha_pago\<close>, and the surrogate \<open>id\<close> of
  \<open>montos_mensuales\<close>, \<open>pagos\<close> and \<open>gastos_en_grupo\<close>, are read by none of the
  functions below and are left out.
\<close>

record gasto_mensual =
  gm_id :: int
  gm_concepto :: string
  gm_monto_total :: real
  gm_frecuencia :: string
  gm_tipo_monto :: string
  gm_tipo_distribucion :: string
  gm_monto_fijo_ricardo :: "real option"
  gm_monto_fijo_wendy :: "real option"
  gm_porcentaje_ricardo :: "real option"
  gm_grupo :: "string option"
  gm_activo :: int

record monto_mensual =
  mm_gasto_id :: int
  mm_mes :: int
  mm_anio :: int
  mm_monto_total :: real

record pago =
  pg_gasto_id :: int
  pg_mes :: int
  pg_anio :: int
  pg_quien_pago :: string
  pg_monto_pagado :: real
  pg_semana :: "int option"

record grupo_distribucion =
  gd_id :: int
  gd_nombre :: string
  gd_descripcion :: string
  gd_monto_fijo_ricardo :: "real option"
  gd_monto_fijo_wendy :: "real option"
  gd_quien_paga_fijo :: string
  gd_activo :: int

record gasto_en_grupo =
  ge_grupo_id :: int
  ge_gasto_id :: int

record db =
  gastos_mensuales :: "gasto_mensual list"
  montos_mensuales :: "monto_mensual list"
  pagos :: "pago list"
  grupos_distribucion :: "grupo_distribucion list"
  gastos_en_grupo :: "gasto_en_grupo list"

text \<open>Python's \<open>x or d\<close> on a nullable number: \<open>None\<close> and \<open>0\<close> are falsy.\<close>
definition or_default :: "real option \<Rightarrow> real \<Rightarrow> real" where
  "or_default x d = (case x of None \<Rightarrow> d | Some v \<Rightarrow> if v = 0 then d else v)"

text \<open>A float that may be \<open>NaN\<close>.\<close>
datatype flotante = NaN | Num real

text \<open>
  Python's \<open>x or d\<close> on a cell of a data frame: \<open>None\<close> and \<open>0\<close> are falsy, \<open>NaN\<close> is
  truthy and is kept.
\<close>
definition or_default_celda :: "flotante option \<Rightarrow> real \<Rightarrow> flotante" where
  "or_default_celda x d =
     (case x of None \<Rightarrow> Num d | Some NaN \<Rightarrow> NaN
      | Some (Num v) \<Rightarrow> if v = 0 then Num d else Num v)"

text \<open>\<open>a - x\<close> and \<open>a * (x / 100)\<close> for a number \<open>a\<close>: \<open>NaN\<close> propagates.\<close>
definition resta :: "real \<Rightarrow> flotante \<Rightarrow> flotante" where
  "resta a x = (case x of NaN \<Rightarrow> NaN | Num v \<Rightarrow> Num (a - v))"

definition por_ciento :: "real \<Rightarrow> flotante \<Rightarrow> flotante" where
  "por_ciento a x = (case x of NaN \<Rightarrow> NaN | Num v \<Rightarrow> Num (a * (v / 100)))"

text \<open>
  Python's \<open>max(0, x)\<close>: \<open>x\<close> when \<open>x > 0\<close>, else the first argument 0; the comparison
  \<open>NaN > 0\<close> is false.
\<close>
definition max_cero :: "flotante \<Rightarrow> flotante" where
  "max_cero x = (case x of NaN \<Rightarrow> Num 0 | Num v \<Rightarrow> Num (max 0 v))"

subsection \<open>Monthly amounts\<close>

definition obtener_monto_del_mes :: "db \<Rightarrow> int \<Rightarrow> int \<Rightarrow> int \<Rightarrow> real" where
  "obtener_monto_del_mes conn gasto_id mes anio =
     (case filter (\<lambda>m. mm_gasto_id m = gasto_id \<and> mm_mes m = mes \<and> mm_anio m = anio)
             (montos_mensuales conn) of
        resultado # _ \<Rightarrow> mm_monto_total resultado
      | [] \<Rightarrow>
          (case filter (\<lambda>g. gm_id g = gasto_id) (gastos_mensuales conn) of
             resultado_base # _ \<Rightarrow> gm_monto_total resultado_base
           | [] \<Rightarrow> 0))"

definition establecer_monto_del_mes :: "db \<Rightarrow> int \<Rightarrow> int \<Rightarrow> int \<Rightarrow> real \<Rightarrow> db \<times> bool" where
  "establecer_monto_del_mes conn gasto_id mes anio monto =
     (let clave = (\<lambda>m. mm_gasto_id m = gasto_id \<and> mm_mes m = mes \<and> mm_anio m = anio)
      in if filter clave (montos_mensuales conn) \<noteq> [] then
           (conn\<lparr>montos_mensuales :=
                   map (\<lambda>m. if clave m then m\<lparr>mm_monto_total := monto\<rparr> else m)
                     (montos_mensuales conn)\<rparr>, True)
         else
           (conn\<lparr>montos_mensuales :=
                   montos_mensuales conn @
                   [\<lparr>mm_gasto_id = gasto_id, mm_mes = mes, mm_anio = anio,
                     mm_monto_total = monto\<rparr>]\<rparr>, True))"

text \<open>A row of the data frame returned by \<open>obtener_montos_configurados\<close>.\<close>
record fila_config =
  fc_id :: int
  fc_concepto :: string
  fc_frecuencia :: string
  fc_tipo_monto :: string
  fc_monto_total :: real
  fc_personalizado :: int
  fc_tipo_distribucion :: string
  fc_monto_fijo_ricardo :: "flotante option"
  fc_monto_fijo_wendy :: "flotante option"
  fc_porcentaje_ricardo :: "flotante option"
  fc_grupo :: "string option"

text \<open>
  A cell of a nullable \<open>REAL\<close> column in \<open>pd.DataFrame(rows, columns=columns)\<close>: when some
  row of the column holds a number the column becomes \<open>float64\<close> and its \<open>NULL\<close>s are
  \<open>NaN\<close>; a column of \<open>NULL\<close>s only keeps \<open>None\<close>.
\<close>
definition celda :: "bool \<Rightarrow> real option \<Rightarrow> flotante option" where
  "celda hay_numero x =
     (case x of Some v \<Rightarrow> Some (Num v) | None \<Rightarrow> if hay_numero then Some NaN else None)"

text \<open>
  The select list of the query, for an expense and the joined override row (if any), as a
  row of the data frame; the three flags tell whether the columns \<open>monto_fijo_ricardo\<close>,
  \<open>monto_fijo_wendy\<close> and \<open>porcentaje_ricardo\<close> hold a number in some row.
\<close>
definition fila_configurada ::
  "bool \<Rightarrow> bool \<Rightarrow> bool \<Rightarrow> gasto_mensual \<Rightarrow> monto_mensual option \<Rightarrow> fila_config" where
  "fila_configurada hay_r hay_w hay_p g m =
     \<lparr>fc_id = gm_id g, fc_concepto = gm_concepto g, fc_frecuencia = gm_frecuencia g,
      fc_tipo_monto = gm_tipo_monto g,
      fc_monto_total =
        (if gm_tipo_monto g = ''variable''
         then (case m of Some r \<Rightarrow> mm_monto_total r | None \<Rightarrow> gm_monto_total g)
         else gm_monto_total g),
      fc_personalizado = (if m \<noteq> None then 1 else 0),
      fc_tipo_distribucion = gm_tipo_distribucion g,
      fc_monto_fijo_ricardo = celda hay_r (gm_monto_fijo_ricardo g),
      fc_monto_fijo_wendy = celda hay_w (gm_monto_fijo_wendy g),
      fc_porcentaje_ricardo = celda hay_p (gm_porcentaje_ricardo g),
      fc_grupo = gm_grupo g\<rparr>"

text \<open>
  The rows of the \<open>LEFT JOIN\<close> of the active expenses with the overrides of the month,
  each as the pair of the expense and the joined override row (if any).
\<close>
definition filas_de_la_consulta ::
  "db \<Rightarrow> int \<Rightarrow> int \<Rightarrow> (gasto_mensual \<times> monto_mensual option) list" where
  "filas_de_la_consulta conn mes anio =
     concat (map
       (\<lambda>g. case filter (\<lambda>m. gm_id g = mm_gasto_id m \<and> mm_mes m = mes \<and> mm_anio m = anio)
                    (montos_mensuales conn) of
               [] \<Rightarrow> [(g, None)]
             | ms \<Rightarrow> map (\<lambda>m. (g, Some m)) ms)
       (filter (\<lambda>g. gm_activo g = 1) (gastos_mensuales conn)))"

text \<open>
  The data frame of the query. The rows come in table order:
  \<open>ORDER BY g.grupo, g.concepto\<close> only permutes them.
\<close>
definition obtener_montos_configurados :: "db \<Rightarrow> int \<Rightarrow> int \<Rightarrow> fila_config list" where
  "obtener_montos_configurados conn mes anio =
     (let rows = filas_de_la_consulta conn mes anio;
          hay_r = (\<exists>(g, m) \<in> set rows. gm_monto_fijo_ricardo g \<noteq> None);
          hay_w = (\<exists>(g, m) \<in> set rows. gm_monto_fijo_wendy g \<noteq> None);
          hay_p = (\<exists>(g, m) \<in> set rows. gm_porcentaje_ricardo g \<noteq> None)
      in map (\<lambda>(g, m). fila_configurada hay_r hay_w hay_p g m) rows)"

subsection \<open>Distribution of a payment\<close>

definition calcular_distribucion_pago :: "fila_config \<Rightarrow> real \<Rightarrow> flotante \<times> flotante" where
  "calcular_distribucion_pago gasto monto_total_mes =
     (let tipo_dist = fc_tipo_distribucion gasto in
      if tipo_dist = ''fijo_ricardo'' then
        (let monto_ricardo = or_default_celda (fc_monto_fijo_ricardo gasto) 0;
             monto_wendy = max_cero (resta monto_total_mes monto_ricardo)
         in (monto_ricardo, monto_wendy))
      else if tipo_dist = ''fijo_wendy'' then
        (let monto_wendy = or_default_celda (fc_monto_fijo_wendy gasto) 0;
             monto_ricardo = max_cero (resta monto_total_mes monto_wendy)
         in (monto_ricardo, monto_wendy))
      else if tipo_dist = ''personalizado'' then
        (let porcentaje_r = or_default_celda (fc_porcentaje_ricardo gasto) 50;
             monto_ricardo = por_ciento monto_total_mes porcentaje_r;
             monto_wendy = resta monto_total_mes monto_ricardo
         in (monto_ricardo, monto_wendy))
      else (Num (monto_total_mes / 2), Num (monto_total_mes / 2)))"

subsection \<open>Distribution groups\<close>

text \<open>The SQL \<open>UPDATE gastos_mensuales SET tipo_distribucion = ? WHERE ...\<close>.\<close>
definition actualizar_tipo_distribucion ::
  "string \<Rightarrow> (gasto_mensual \<Rightarrow> bool) \<Rightarrow> gasto_mensual list \<Rightarrow> gasto_mensual list" where
  "actualizar_tipo_distribucion tipo donde gastos =
     map (\<lambda>g. if donde g then g\<lparr>gm_tipo_distribucion := tipo\<rparr> else g) gastos"

text \<open>
  The loop of \<open>crear_grupo_distribucion\<close> over \<open>gastos_ids\<close>: the \<open>INSERT\<close> raises
  \<open>IntegrityError\<close> on a pair that \<open>UNIQUE(grupo_id, gasto_id)\<close> forbids (foreign keys
  are not enforced by the connection).
\<close>
fun asociar_gastos :: "db \<Rightarrow> int \<Rightarrow> int list \<Rightarrow> db option" where
  "asociar_gastos conn grupo_id [] = Some conn"
| "asociar_gastos conn grupo_id (gasto_id # resto) =
     (if \<exists>r \<in> set (gastos_en_grupo conn). ge_grupo_id r = grupo_id \<and> ge_gasto_id r = gasto_id
      then None
      else asociar_gastos
        (conn\<lparr>gastos_en_grupo :=
                 gastos_en_grupo conn @ [\<lparr>ge_grupo_id = grupo_id, ge_gasto_id = gasto_id\<rparr>],
               gastos_mensuales :=
                 actualizar_tipo_distribucion ''agrupado'' (\<lambda>g. gm_id g = gasto_id)
                   (gastos_mensuales conn)\<rparr>)
        grupo_id resto)"

text \<open>
  \<open>cursor.lastrowid\<close> of the \<open>AUTOINCREMENT\<close> key: one more than the largest id of the
  table, whose rows are never deleted.
\<close>
definition nuevo_grupo_id :: "db \<Rightarrow> int" where
  "nuevo_grupo_id conn = fold max (map gd_id (grupos_distribucion conn)) 0 + 1"

text \<open>The result is the new state and the returned group id (\<open>None\<close> after a rollback).\<close>
definition crear_grupo_distribucion ::
  "db \<Rightarrow> string \<Rightarrow> string \<Rightarrow> string \<Rightarrow> real \<Rightarrow> int list \<Rightarrow> db \<times> int option" where
  "crear_grupo_distribucion conn nombre descripcion quien_paga_fijo monto_fijo gastos_ids =
     (let monto_r = (if quien_paga_fijo = ''Ricardo'' then Some monto_fijo else None);
          monto_w = (if quien_paga_fijo = ''Wendy'' then Some monto_fijo else None);
          grupo_id = nuevo_grupo_id conn;
          conn1 = conn\<lparr>grupos_distribucion :=
                    grupos_distribucion conn @
                    [\<lparr>gd_id = grupo_id, gd_nombre = nombre, gd_descripcion = descripcion,
                      gd_monto_fijo_ricardo = monto_r, gd_monto_fijo_wendy = monto_w,
                      gd_quien_paga_fijo = quien_paga_fijo, gd_activo = 1\<rparr>]\<rparr>
      in case asociar_gastos conn1 grupo_id gastos_ids of
           Some conn2 \<Rightarrow> (conn2, Some grupo_id)
         | None \<Rightarrow> (conn, None))"

text \<open>A group as \<open>obtener_grupos_distribucion\<close> returns it, with its active expenses.\<close>
record grupo =
  gr_id :: int
  gr_nombre :: string
  gr_descripcion :: string
  gr_monto_fijo_ricardo :: "real option"
  gr_monto_fijo_wendy :: "real option"
  gr_quien_paga_fijo :: string
  gr_gastos :: "(int \<times> string \<times> real) list"

text \<open>
  The \<open>INNER JOIN\<close> of the expenses with the membership rows of a group, restricted to
  the active expenses: one joined row for each pair of an expense and a membership row.
\<close>
definition miembros_activos :: "db \<Rightarrow> int \<Rightarrow> gasto_mensual list" where
  "miembros_activos conn grupo_id =
     concat (map
       (\<lambda>g. map (\<lambda>ge. g)
              (filter (\<lambda>ge. gm_id g = ge_gasto_id ge \<and> ge_grupo_id ge = grupo_id \<and> gm_activo g = 1)
                 (gastos_en_grupo conn)))
       (gastos_mensuales conn))"

text \<open>The select list \<open>g.id, g.concepto, g.monto_total\<close> of that join.\<close>
definition gastos_activos_de_grupo :: "db \<Rightarrow> int \<Rightarrow> (int \<times> string \<times> real) list" where
  "gastos_activos_de_grupo conn grupo_id =
     map (\<lambda>g. (gm_id g, gm_concepto g, gm_monto_total g)) (miembros_activos conn grupo_id)"

text \<open>The groups come in table order: \<open>ORDER BY gd.nombre\<close> only permutes them.\<close>
definition obtener_grupos_distribucion :: "db \<Rightarrow> grupo list" where
  "obtener_grupos_distribucion conn =
     map (\<lambda>gd. \<lparr>gr_id = gd_id gd, gr_nombre = gd_nombre gd, gr_descripcion = gd_descripcion gd,
                gr_monto_fijo_ricardo = gd_monto_fijo_ricardo gd,
                gr_monto_fijo_wendy = gd_monto_fijo_wendy gd,
                gr_quien_paga_fijo = gd_quien_paga_fijo gd,
                gr_gastos = gastos_activos_de_grupo conn (gd_id gd)\<rparr>)
       (filter (\<lambda>gd. gd_activo gd = 1) (grupos_distribucion conn))"

text \<open>The writes return the new state and the function's boolean result.\<close>
definition agregar_gasto_a_grupo :: "db \<Rightarrow> int \<Rightarrow> int \<Rightarrow> db \<times> bool" where
  "agregar_gasto_a_grupo conn grupo_id gasto_id =
     (if \<exists>r \<in> set (gastos_en_grupo conn). ge_grupo_id r = grupo_id \<and> ge_gasto_id r = gasto_id
      then (conn, False)
      else
        (conn\<lparr>gastos_en_grupo :=
                 gastos_en_grupo conn @ [\<lparr>ge_grupo_id = grupo_id, ge_gasto_id = gasto_id\<rparr>],
               gastos_mensuales :=
                 actualizar_tipo_distribucion ''agrupado'' (\<lambda>g. gm_id g = gasto_id)
                   (gastos_mensuales conn)\<rparr>,
         True))"

text \<open>\<open>cursor.rowcount\<close> is that of the last statement, the \<open>UPDATE\<close> of the expense.\<close>
definition remover_gasto_de_grupo :: "db \<Rightarrow> int \<Rightarrow> int \<Rightarrow> db \<times> bool" where
  "remover_gasto_de_grupo conn grupo_id gasto_id =
     (conn\<lparr>gastos_en_grupo :=
              filter (\<lambda>r. \<not> (ge_grupo_id r = grupo_id \<and> ge_gasto_id r = gasto_id))
                (gastos_en_grupo conn),
            gastos_mensuales :=
              actualizar_tipo_distribucion ''50/50'' (\<lambda>g. gm_id g = gasto_id)
                (gastos_mensuales conn)\<rparr>,
      length (filter (\<lambda>g. gm_id g = gasto_id) (gastos_mensuales conn)) > 0)"

definition eliminar_grupo_distribucion :: "db \<Rightarrow> int \<Rightarrow> db \<times> bool" where
  "eliminar_grupo_distribucion conn grupo_id =
     (conn\<lparr>gastos_mensuales :=
              actualizar_tipo_distribucion ''50/50''
                (\<lambda>g. gm_id g \<in> set (map ge_gasto_id
                        (filter (\<lambda>r. ge_grupo_id r = grupo_id) (gastos_en_grupo conn))))
                (gastos_mensuales conn),
            grupos_distribucion :=
              map (\<lambda>gd. if gd_id gd = grupo_id then gd\<lparr>gd_activo := 0\<rparr> else gd)
                (grupos_distribucion conn)\<rparr>,
      length (filter (\<lambda>gd. gd_id gd = grupo_id) (grupos_distribucion conn)) > 0)"

subsection \<open>Payments\<close>

definition registrar_pago ::
  "db \<Rightarrow> int \<Rightarrow> int \<Rightarrow> int \<Rightarrow> string \<Rightarrow> real \<Rightarrow> int option \<Rightarrow> db \<times> bool" where
  "registrar_pago conn gasto_id mes anio quien_pago monto_pagado semana =
     (conn\<lparr>pagos := pagos conn @
              [\<lparr>pg_gasto_id = gasto_id, pg_mes = mes, pg_anio = anio,
                pg_quien_pago = quien_pago, pg_monto_pagado = monto_pagado,
                pg_semana = semana\<rparr>]\<rparr>, True)"

definition verificar_pago_existente ::
  "db \<Rightarrow> int \<Rightarrow> int \<Rightarrow> int \<Rightarrow> string \<Rightarrow> int option \<Rightarrow> bool" where
  "verificar_pago_existente conn gasto_id mes anio quien_pago semana =
     (let count =
        (case semana of
           Some s \<Rightarrow>
             length (filter (\<lambda>p. pg_gasto_id p = gasto_id \<and> pg_mes p = mes \<and> pg_anio p = anio \<and>
                                 pg_quien_pago p = quien_pago \<and> pg_semana p = Some s) (pagos conn))
         | None \<Rightarrow>
             length (filter (\<lambda>p. pg_gasto_id p = gasto_id \<and> pg_mes p = mes \<and> pg_anio p = anio \<and>
                                 pg_quien_pago p = quien_pago) (pagos conn)))
      in count > 0)"

definition obtener_semanas_pagadas :: "db \<Rightarrow> int \<Rightarrow> int \<Rightarrow> int \<Rightarrow> string \<Rightarrow> int list" where
  "obtener_semanas_pagadas conn gasto_id mes anio quien_pago =
     sort (List.map_filter pg_semana
       (filter (\<lambda>p. pg_gasto_id p = gasto_id \<and> pg_mes p = mes \<and> pg_anio p = anio \<and>
                    pg_quien_pago p = quien_pago) (pagos conn)))"

subsection \<open>The monthly table\<close>

text \<open>
  A row of the table. The \<open>id\<close> is the expense id, or the string \<open>grupo_<id>\<close> for a
  group; the paid marks are booleans. The display label \<open>Concepto\<close> is left out. The two
  shares are what the split computes, and can be \<open>NaN\<close> in the row of an expense.
\<close>
datatype fila_id = IdGasto int | IdGrupo int

record fila_tabla =
  ft_id :: fila_id
  ft_monto_total :: real
  ft_frecuencia :: string
  ft_debe_ricardo :: flotante
  ft_debe_wendy :: flotante
  ft_ricardo_pago :: bool
  ft_wendy_pago :: bool

text \<open>
  The inner loop over the expenses of a group, with the state
  \<open>(monto_total_grupo, gastos_procesados)\<close>.
\<close>
fun sumar_gastos_grupo ::
  "db \<Rightarrow> fila_config list \<Rightarrow> int \<Rightarrow> int \<Rightarrow> (int \<times> string \<times> real) list \<Rightarrow>
   real \<times> int set \<Rightarrow> (real \<times> int set) option" where
  "sumar_gastos_grupo conn gastos_df mes anio [] estado = Some estado"
| "sumar_gastos_grupo conn gastos_df mes anio ((gasto_id, concepto, monto_base) # resto)
     (monto_total_grupo, gastos_procesados) =
     (let monto_mes_actualizado = obtener_monto_del_mes conn gasto_id mes anio in
      case filter (\<lambda>r. fc_id r = gasto_id) gastos_df of
        [] \<Rightarrow> sumar_gastos_grupo conn gastos_df mes anio resto
               (monto_total_grupo, gastos_procesados)
      | gasto_row # _ \<Rightarrow>
          do {
            monto_mes \<leftarrow> calcular_monto_mensual_segun_frecuencia monto_mes_actualizado
                           (fc_frecuencia gasto_row) mes anio;
            sumar_gastos_grupo conn gastos_df mes anio resto
              (monto_total_grupo + monto_mes, insert gasto_id gastos_procesados)
          })"

text \<open>The split and the paid marks of a group, and its row.\<close>
definition fila_de_grupo :: "db \<Rightarrow> int \<Rightarrow> int \<Rightarrow> grupo \<Rightarrow> real \<Rightarrow> fila_tabla" where
  "fila_de_grupo conn mes anio grupo monto_total_grupo =
     (let quien_paga = gr_quien_paga_fijo grupo;
          (monto_ricardo, monto_wendy) =
            (if quien_paga = ''Ricardo'' then
               (let monto_fijo = or_default (gr_monto_fijo_ricardo grupo) 0
                in (monto_fijo, max 0 (monto_total_grupo - monto_fijo)))
             else if quien_paga = ''Wendy'' then
               (let monto_fijo = or_default (gr_monto_fijo_wendy grupo) 0
                in (max 0 (monto_total_grupo - monto_fijo), monto_fijo))
             else (monto_total_grupo / 2, monto_total_grupo / 2));
          ricardo_pago =
            list_all (\<lambda>(g_id, _, _). verificar_pago_existente conn g_id mes anio ''Ricardo'' None)
              (gr_gastos grupo);
          wendy_pago =
            list_all (\<lambda>(g_id, _, _). verificar_pago_existente conn g_id mes anio ''Wendy'' None)
              (gr_gastos grupo)
      in \<lparr>ft_id = IdGrupo (gr_id grupo), ft_monto_total = monto_total_grupo,
          ft_frecuencia = ''Grupo'', ft_debe_ricardo = Num monto_ricardo,
          ft_debe_wendy = Num monto_wendy, ft_ricardo_pago = ricardo_pago,
          ft_wendy_pago = wendy_pago\<rparr>)"

text \<open>
  The loop over the groups, with the state \<open>(resultados, gastos_procesados)\<close>. The label
  of the row ends with \<open>quien_paga[0]\<close>, which raises \<open>IndexError\<close> on the empty string.
\<close>
fun procesar_grupos ::
  "db \<Rightarrow> fila_config list \<Rightarrow> int \<Rightarrow> int \<Rightarrow> grupo list \<Rightarrow>
   fila_tabla list \<times> int set \<Rightarrow> (fila_tabla list \<times> int set) option" where
  "procesar_grupos conn gastos_df mes anio [] estado = Some estado"
| "procesar_grupos conn gastos_df mes anio (grupo # resto) (resultados, gastos_procesados) =
     (if gr_gastos grupo = [] then
        procesar_grupos conn gastos_df mes anio resto (resultados, gastos_procesados)
      else
        do {
          (monto_total_grupo, gastos_procesados') \<leftarrow>
            sumar_gastos_grupo conn gastos_df mes anio (gr_gastos grupo) (0, gastos_procesados);
          if gr_quien_paga_fijo grupo = [] then None
          else
            procesar_grupos conn gastos_df mes anio resto
              (resultados @ [fila_de_grupo conn mes anio grupo monto_total_grupo],
               gastos_procesados')
        })"

text \<open>The row of an expense that is in no group.\<close>
definition fila_de_gasto :: "db \<Rightarrow> int \<Rightarrow> int \<Rightarrow> fila_config \<Rightarrow> fila_tabla option" where
  "fila_de_gasto conn mes anio gasto =
     (let gasto_id = fc_id gasto;
          monto_base = fc_monto_total gasto;
          frecuencia = fc_frecuencia gasto
      in do {
        monto_total \<leftarrow> calcular_monto_mensual_segun_frecuencia monto_base frecuencia mes anio;
        (let (monto_ricardo, monto_wendy) = calcular_distribucion_pago gasto monto_total in
         do {
           (ricardo_pago, wendy_pago) \<leftarrow>
             (if frecuencia = ''Semanal'' then
                do {
                  semanas_del_mes \<leftarrow> calcular_semanas_del_mes mes anio;
                  (let ricardo_semanas = obtener_semanas_pagadas conn gasto_id mes anio ''Ricardo'';
                       wendy_semanas = obtener_semanas_pagadas conn gasto_id mes anio ''Wendy''
                   in Some (int (length ricardo_semanas) = semanas_del_mes,
                            int (length wendy_semanas) = semanas_del_mes))
                }
              else
                Some (verificar_pago_existente conn gasto_id mes anio ''Ricardo'' None,
                      verificar_pago_existente conn gasto_id mes anio ''Wendy'' None));
           Some \<lparr>ft_id = IdGasto gasto_id, ft_monto_total = monto_total,
                 ft_frecuencia = frecuencia, ft_debe_ricardo = monto_ricardo,
                 ft_debe_wendy = monto_wendy, ft_ricardo_pago = ricardo_pago,
                 ft_wendy_pago = wendy_pago\<rparr>
         })
      })"

text \<open>The loop over the rows of \<open>gastos_df\<close>, with the state \<open>resultados\<close>.\<close>
fun procesar_gastos ::
  "db \<Rightarrow> int \<Rightarrow> int \<Rightarrow> int set \<Rightarrow> fila_config list \<Rightarrow> fila_tabla list \<Rightarrow>
   fila_tabla list option" where
  "procesar_gastos conn mes anio gastos_procesados [] resultados = Some resultados"
| "procesar_gastos conn mes anio gastos_procesados (gasto # resto) resultados =
     (if fc_id gasto \<in> gastos_procesados then
        procesar_gastos conn mes anio gastos_procesados resto resultados
      else if fc_tipo_distribucion gasto = ''agrupado'' then
        procesar_gastos conn mes anio gastos_procesados resto resultados
      else
        do {
          fila \<leftarrow> fila_de_gasto conn mes anio gasto;
          procesar_gastos conn mes anio gastos_procesados resto (resultados @ [fila])
        })"

definition calcular_tabla_mensual :: "db \<Rightarrow> int \<Rightarrow> int \<Rightarrow> fila_tabla list option" where
  "calcular_tabla_mensual conn mes anio =
     (let gastos_df = obtener_montos_configurados conn mes anio in
      if gastos_df = [] then Some []
      else
        do {
          (resultados, gastos_procesados) \<leftarrow>
            procesar_grupos conn gastos_df mes anio (obtener_grupos_distribucion conn) ([], {});
          procesar_gastos conn mes anio gastos_procesados gastos_df resultados
        })"

subsection \<open>The net balance\<close>

text \<open>The three messages, with the amount that the text shows.\<close>
datatype mensaje = RicardoDebePagar real | WendyDebePagar real | TodoPagado

record saldo_neto =
  sn_total_debe_cada_uno :: real
  sn_pagado_ricardo :: real
  sn_pagado_wendy :: real
  sn_saldo_ricardo :: real
  sn_saldo_wendy :: real
  sn_mensaje :: mensaje

text \<open>
  \<open>SELECT SUM(monto_pagado) FROM pagos WHERE mes = ? AND anio = ? AND quien_pago = ?\<close>,
  followed by \<open>or 0.0\<close>: the sum of no rows is \<open>NULL\<close>, and becomes 0.
\<close>
definition total_pagado :: "db \<Rightarrow> int \<Rightarrow> int \<Rightarrow> string \<Rightarrow> real" where
  "total_pagado conn mes anio quien =
     sum_list (map pg_monto_pagado
       (filter (\<lambda>p. pg_mes p = mes \<and> pg_anio p = anio \<and> pg_quien_pago p = quien) (pagos conn)))"

definition calcular_saldo_neto :: "db \<Rightarrow> int \<Rightarrow> int \<Rightarrow> saldo_neto" where
  "calcular_saldo_neto conn mes anio =
     (let gastos_df = obtener_montos_configurados conn mes anio;
          total_debe_cada_uno =
            (if gastos_df \<noteq> [] then sum_list (map fc_monto_total gastos_df) / 2 else 0);
          pagado_ricardo = total_pagado conn mes anio ''Ricardo'';
          pagado_wendy = total_pagado conn mes anio ''Wendy'';
          saldo_ricardo = total_debe_cada_uno - pagado_ricardo;
          saldo_wendy = total_debe_cada_uno - pagado_wendy
      in \<lparr>sn_total_debe_cada_uno = total_debe_cada_uno,
          sn_pagado_ricardo = pagado_ricardo, sn_pagado_wendy = pagado_wendy,
          sn_saldo_ricardo = saldo_ricardo, sn_saldo_wendy = saldo_wendy,
          sn_mensaje =
            (if saldo_ricardo > 0.01 then RicardoDebePagar \<bar>saldo_ricardo\<bar>
             else if saldo_wendy > 0.01 then WendyDebePagar \<bar>saldo_wendy\<bar>
             else TodoPagado)\<rparr>)"

subsection \<open>Example data\<close>


text \<open>An expense with the defaults of the table: monthly, fixed amount, split 50/50.\<close>
definition gasto_base :: "int \<Rightarrow> string \<Rightarrow> real \<Rightarrow> gasto_mensual" where
  "gasto_base i concepto monto =
     \<lparr>gm_id = i, gm_concepto = concepto, gm_monto_total = monto, gm_frecuencia = ''Mensual'',
      gm_tipo_monto = ''fijo'', gm_tipo_distribucion = ''50/50'',
      gm_monto_fijo_ricardo = None, gm_monto_fijo_wendy = None,
      gm_porcentaje_ricardo = Some 50, gm_grupo = None, gm_activo = 1\<rparr>"

definition pago_de :: "int \<Rightarrow> int \<Rightarrow> int \<Rightarrow> string \<Rightarrow> real \<Rightarrow> int option \<Rightarrow> pago" where
  "pago_de gasto_id mes anio quien monto semana =
     \<lparr>pg_gasto_id = gasto_id, pg_mes = mes, pg_anio = anio, pg_quien_pago = quien,
      pg_monto_pagado = monto, pg_semana = semana\<rparr>"

definition db_vacia :: db where
  "db_vacia = \<lparr>gastos_mensuales = [], montos_mensuales = [], pagos = [],
                grupos_distribucion = [], gastos_en_grupo = []\<rparr>"

text \<open>
  Three expenses; \<open>Luz\<close> (40) and \<open>Agua\<close> (60) form the group \<open>Servicios\<close>, to which
  Ricardo contributes a fixed 70. In March 2025 Ricardo has paid both, Wendy only \<open>Luz\<close>.
\<close>
definition db_grupo :: db where
  "db_grupo =
     \<lparr>gastos_mensuales =
        [(gasto_base 1 ''Luz'' 40)\<lparr>gm_tipo_distribucion := ''agrupado''\<rparr>,
         (gasto_base 2 ''Agua'' 60)\<lparr>gm_tipo_distribucion := ''agrupado''\<rparr>,
         (gasto_base 3 ''Internet'' 50)\<lparr>gm_tipo_distribucion := ''personalizado'',
            gm_porcentaje_ricardo := Some 60\<rparr>],
      montos_mensuales = [],
      pagos =
        [pago_de 1 3 2025 ''Ricardo'' 28 None, pago_de 2 3 2025 ''Ricardo'' 42 None,
         pago_de 1 3 2025 ''Wendy'' 12 None],
      grupos_distribucion =
        [\<lparr>gd_id = 1, gd_nombre = ''Servicios'', gd_descripcion = ''Casa'',
          gd_monto_fijo_ricardo = Some 70, gd_monto_fijo_wendy = None,
          gd_quien_paga_fijo = ''Ricardo'', gd_activo = 1\<rparr>],
      gastos_en_grupo =
        [\<lparr>ge_grupo_id = 1, ge_gasto_id = 1\<rparr>, \<lparr>ge_grupo_id = 1, ge_gasto_id = 2\<rparr>]\<rparr>"

text \<open>
  Two expenses in no group: \<open>Luz\<close>, 100 a month, of which Ricardo pays a fixed 70, and
  \<open>Limpieza\<close>, 20 every fortnight, split 50/50. Ricardo has paid 100 in March 2025 and
  30 in April 2025.
\<close>
definition db_saldo :: db where
  "db_saldo =
     \<lparr>gastos_mensuales =
        [(gasto_base 1 ''Luz'' 100)\<lparr>gm_tipo_distribucion := ''fijo_ricardo'',
            gm_monto_fijo_ricardo := Some 70\<rparr>,
         (gasto_base 2 ''Limpieza'' 20)\<lparr>gm_frecuencia := ''Quincenal''\<rparr>],
      montos_mensuales = [],
      pagos = [pago_de 1 3 2025 ''Ricardo'' 100 None, pago_de 2 4 2025 ''Ricardo'' 30 None],
      grupos_distribucion = [],
      gastos_en_grupo = []\<rparr>"

text \<open>
  The group of \<open>db_grupo\<close>, after an amount of 150 is stored for March 2025 for \<open>Luz\<close>,
  an expense of fixed amount 40.
\<close>
definition db_fijo_con_monto_del_mes :: db where
  "db_fijo_con_monto_del_mes = fst (establecer_monto_del_mes db_grupo 1 3 2025 150)"


section \<open>Properties\<close>

subsection \<open>Calendar arithmetic\<close>

lemma div_sandwich:
  fixes x :: int
  assumes "0 < b"
  shows "b * (x div b) \<le> x" "x - (b - 1) \<le> b * (x div b)"
proof -
  have e: "b * (x div b) = x - x mod b" by (simp add: minus_mod_eq_mult_div)
  have "0 \<le> x mod b" "x mod b < b" using assms by simp_all
  then show "b * (x div b) \<le> x" "x - (b - 1) \<le> b * (x div b)" unfolding e by simp_all
qed

lemma days_before_year_bounds:
  assumes "1 \<le> y" "y \<le> 9998"
  shows "0 \<le> days_before_year y" "days_before_year y \<le> 3651686"
proof -
  define x where "x = y - 1"
  have x: "0 \<le> x" "x \<le> 9997" using assms by (simp_all add: x_def)
  define q4 q100 q400 where "q4 = x div 4" and "q100 = x div 100" and "q400 = x div 400"
  have a: "4 * q4 \<le> x" "x - 3 \<le> 4 * q4"
    using div_sandwich [of 4 x] by (simp_all add: q4_def)
  have b: "100 * q100 \<le> x" "x - 99 \<le> 100 * q100"
    using div_sandwich [of 100 x] by (simp_all add: q100_def)
  have c: "400 * q400 \<le> x" "0 \<le> q400"
    using div_sandwich [of 400 x] x by (simp_all add: q400_def)
  have d: "days_before_year y = x * 365 + q4 - q100 + q400"
    by (simp add: days_before_year_def x_def Let_def q4_def q100_def q400_def)
  show "0 \<le> days_before_year y" using a b c x unfolding d by linarith
  show "days_before_year y \<le> 3651686" using a b c x unfolding d by linarith
qed

lemma days_before_year_9999: "days_before_year 9999 = 3651694"
  by (simp add: days_before_year_def)

lemma days_in_month_range:
  "1 \<le> m \<Longrightarrow> m \<le> 12 \<Longrightarrow> 28 \<le> days_in_month y m \<and> days_in_month y m \<le> 31"
  by (simp add: days_in_month_def DAYS_IN_MONTH_def)

lemma monthrange_ndays_eq:
  "1 \<le> m \<Longrightarrow> m \<le> 12 \<Longrightarrow> monthrange_ndays y m = Some (days_in_month y m)"
  by (simp add: monthrange_ndays_def days_in_month_def DAYS_IN_MONTH_def)

lemma month_cases:
  "1 \<le> m \<Longrightarrow> m \<le> 12 \<Longrightarrow>
   m = 1 \<or> m = 2 \<or> m = 3 \<or> m = 4 \<or> m = 5 \<or> m = 6 \<or>
   m = 7 \<or> m = 8 \<or> m = 9 \<or> m = 10 \<or> m = 11 \<or> m = (12::int)"
  by arith

lemma month_end_le_year:
  assumes "1 \<le> m" "m \<le> 12"
  shows "0 \<le> days_before_month y m \<and> days_before_month y m + days_in_month y m \<le> 366"
  using month_cases [OF assms]
  by (elim disjE)
    (simp_all add: days_before_month_def days_in_month_def DAYS_IN_MONTH_def DAYS_BEFORE_MONTH_def)

lemma month_end_9999:
  assumes "1 \<le> m" "m \<le> 11"
  shows "days_before_month 9999 m + days_in_month 9999 m \<le> 334"
proof -
  have m: "m \<le> 12" and "m \<noteq> 12" using assms by simp_all
  with month_cases [OF assms(1) m] show ?thesis
    by (elim disjE)
      (simp_all add: days_before_month_def days_in_month_def DAYS_IN_MONTH_def
        DAYS_BEFORE_MONTH_def is_leap_def)
qed

text \<open>The loop counts the Mondays from the first one to the end of the month.\<close>
lemma contar_semanas_pasos:
  "0 < f \<Longrightarrow> u + 7 \<le> MAXORDINAL \<Longrightarrow> f + 7 * int n \<le> u + 7 \<Longrightarrow> u < f + 7 * int n \<Longrightarrow>
   contar_semanas u s f = Some (s + int n)"
proof (induction n arbitrary: s f)
  case 0
  then show ?case by (subst contar_semanas.simps) simp
next
  case (Suc n)
  have le: "f \<le> u" "0 < f + 7" "f + 7 \<le> MAXORDINAL" using Suc.prems by simp_all
  have "contar_semanas u (s + 1) (f + 7) = Some (s + 1 + int n)"
    using Suc.prems by (intro Suc.IH) simp_all
  then show ?case using le by (subst contar_semanas.simps) simp
qed

lemma contar_semanas_eq:
  assumes "f \<le> u" "0 < f" "u + 7 \<le> MAXORDINAL"
  shows "contar_semanas u s f = Some (s + (u - f) div 7 + 1)"
proof -
  define q where "q = (u - f) div 7"
  have q: "7 * q \<le> u - f" "u - f - 6 \<le> 7 * q"
    using div_sandwich [of 7 "u - f"] by (simp_all add: q_def)
  then have q0: "0 \<le> q" using assms(1) by linarith
  have "contar_semanas u s f = Some (s + int (nat (q + 1)))"
    using assms q q0 by (intro contar_semanas_pasos) simp_all
  then show ?thesis using q0 by (simp add: q_def)
qed

lemma month_ordinals:
  assumes "fecha_soportada mes anio"
  shows "1 \<le> ymd2ord anio mes 1"
    and "ymd2ord anio mes (days_in_month anio mes) + 7 \<le> MAXORDINAL"
proof -
  have m: "1 \<le> mes" "mes \<le> 12" and y: "1 \<le> anio" "anio \<le> 9999"
    using assms by (simp_all add: fecha_soportada_def)
  show "ymd2ord anio mes (days_in_month anio mes) + 7 \<le> MAXORDINAL"
  proof (cases "anio = 9999")
    case True
    then have "mes \<le> 11" using assms by (simp add: fecha_soportada_def)
    with month_end_9999 [OF m(1)] True show ?thesis
      by (simp add: ymd2ord_def days_before_year_9999 MAXORDINAL_def)
  next
    case False
    then have "anio \<le> 9998" using y by simp
    with days_before_year_bounds(2) [OF y(1)] month_end_le_year [OF m, of anio]
    show ?thesis by (simp add: ymd2ord_def MAXORDINAL_def)
  qed
  show "1 \<le> ymd2ord anio mes 1"
  proof (cases "anio = 9999")
    case True
    with month_end_le_year [OF m, of anio] show ?thesis
      by (simp add: ymd2ord_def days_before_year_9999)
  next
    case False
    then have "anio \<le> 9998" using y by simp
    with days_before_year_bounds(1) [OF y(1)] month_end_le_year [OF m, of anio]
    show ?thesis by (simp add: ymd2ord_def)
  qed
qed

text \<open>
  The count in closed form: the first Monday is \<open>k\<close> days after the 1st, \<open>k\<close> from 0 to 6.
\<close>
lemma calcular_semanas_del_mes_eq:
  assumes "fecha_soportada mes anio"
  shows "\<exists>k. 0 \<le> k \<and> k \<le> 6 \<and>
           calcular_semanas_del_mes mes anio = Some ((days_in_month anio mes - 1 - k) div 7 + 1)"
proof -
  have m: "1 \<le> mes" "mes \<le> 12" and y: "1 \<le> anio" "anio \<le> 9999"
    using assms by (simp_all add: fecha_soportada_def)
  define o1 where "o1 = ymd2ord anio mes 1"
  define n where "n = days_in_month anio mes"
  have n: "28 \<le> n" "n \<le> 31" using days_in_month_range [OF m, of anio] by (simp_all add: n_def)
  have o1: "1 \<le> o1" using month_ordinals(1) [OF assms] by (simp add: o1_def)
  have last: "ymd2ord anio mes n = o1 + n - 1" by (simp add: ymd2ord_def o1_def)
  have top: "o1 + n - 1 + 7 \<le> MAXORDINAL"
    using month_ordinals(2) [OF assms] last by (simp add: n_def)
  have d1: "date anio mes 1 = Some o1"
    using m y n by (simp add: date_def MINYEAR_def MAXYEAR_def o1_def n_def)
  have dn: "date anio mes n = Some (o1 + n - 1)"
    using m y n last by (simp add: date_def MINYEAR_def MAXYEAR_def n_def)
  have mr: "monthrange_ndays anio mes = Some n"
    using monthrange_ndays_eq [OF m] by (simp add: n_def)
  define w where "w = weekday o1"
  have w: "0 \<le> w" "w \<le> 6" by (simp_all add: w_def weekday_def)
  show ?thesis
  proof (cases "w = 0")
    case True
    have "contar_semanas (o1 + n - 1) 0 o1 = Some (0 + (o1 + n - 1 - o1) div 7 + 1)"
      using n o1 top by (intro contar_semanas_eq) simp_all
    then have "calcular_semanas_del_mes mes anio = Some ((n - 1 - 0) div 7 + 1)"
      using True n by (simp add: calcular_semanas_del_mes_def d1 dn mr w_def [symmetric])
    then show ?thesis unfolding n_def by (intro exI [of _ 0]) simp
  next
    case False
    define k where "k = 7 - w"
    have k: "1 \<le> k" "k \<le> 6" using w False by (simp_all add: k_def)
    have km: "(7 - w) mod 7 = k" "- w mod 7 = k" using w False unfolding k_def by presburger+
    have add: "date_add o1 k = Some (o1 + k)"
      using k o1 top n by (simp add: date_add_def)
    have "contar_semanas (o1 + n - 1) 0 (o1 + k) = Some (0 + (o1 + n - 1 - (o1 + k)) div 7 + 1)"
      using n o1 top k by (intro contar_semanas_eq) simp_all
    moreover have "o1 + n - 1 - (o1 + k) = n - 1 - k" by simp
    ultimately have "calcular_semanas_del_mes mes anio = Some ((n - 1 - k) div 7 + 1)"
      using False n k
      by (simp add: calcular_semanas_del_mes_def d1 dn mr w_def [symmetric] km add Let_def)
    then show ?thesis unfolding n_def using k by (intro exI [of _ k]) simp
  qed
qed

lemma calcular_semanas_del_mes_4_5:
  assumes "fecha_soportada mes anio"
  shows "calcular_semanas_del_mes mes anio = Some 4 \<or> calcular_semanas_del_mes mes anio = Some 5"
proof -
  from calcular_semanas_del_mes_eq [OF assms] obtain k where
    k: "0 \<le> k" "k \<le> 6" and
    eq: "calcular_semanas_del_mes mes anio = Some ((days_in_month anio mes - 1 - k) div 7 + 1)"
    by blast
  have m: "1 \<le> mes" "mes \<le> 12" using assms by (simp_all add: fecha_soportada_def)
  define n where "n = days_in_month anio mes"
  have n: "28 \<le> n" "n \<le> 31" using days_in_month_range [OF m, of anio] by (simp_all add: n_def)
  have "(n - 1 - k) div 7 = 3 \<or> (n - 1 - k) div 7 = 4" using n k by presburger
  then show ?thesis using eq by (auto simp add: n_def)
qed

lemmas calendario_defs =
  calcular_semanas_del_mes_def date_def monthrange_ndays_def MINYEAR_def MAXYEAR_def
  days_in_month_def DAYS_IN_MONTH_def is_leap_def ymd2ord_def days_before_year_def
  days_before_month_def DAYS_BEFORE_MONTH_def weekday_def date_add_def MAXORDINAL_def Let_def
  contar_semanas.simps

lemma semanas_febrero_2024: "calcular_semanas_del_mes 2 2024 = Some 4"
  by (simp add: calendario_defs)

lemma semanas_enero_2024: "calcular_semanas_del_mes 1 2024 = Some 5"
  by (simp add: calendario_defs)

text \<open>
  Outside \<open>fecha_soportada\<close> the function raises: \<open>ValueError\<close> for month 13, and
  \<open>OverflowError\<close> in December 9999, when the loop adds 7 days to 9999-12-27.
\<close>
lemma semanas_mes_13: "calcular_semanas_del_mes 13 2024 = None"
  by (simp add: calendario_defs)


subsection \<open>Weeks of a month\<close>

text \<open>
  Claim C7. For every month 1 to 12 of a year that \<open>date\<close> supports (1 to 9999, where
  December 9999 is excluded since the loop leaves the range of \<open>date\<close> there),
  \<open>calcular_semanas_del_mes\<close> returns, and returns 4 or 5: the number of Mondays of
  the month. It returns 4 for February 2024 and 5 for January 2024.
\<close>
theorem calcular_semanas_del_mes_cuatro_o_cinco:
  "(fecha_soportada mes anio \<longrightarrow>
      calcular_semanas_del_mes mes anio = Some 4 \<or> calcular_semanas_del_mes mes anio = Some 5) \<and>
   calcular_semanas_del_mes 2 2024 = Some 4 \<and>
   calcular_semanas_del_mes 1 2024 = Some 5"
  using calcular_semanas_del_mes_4_5 semanas_febrero_2024 semanas_enero_2024 by blast

theorem calcular_semanas_del_mes_cuatro_o_cinco_witness:
  "fecha_soportada 3 2025 \<and>
   (calcular_semanas_del_mes 3 2025 = Some 4 \<or> calcular_semanas_del_mes 3 2025 = Some 5)"
  using calcular_semanas_del_mes_cuatro_o_cinco [of 3 2025]
  by (simp add: fecha_soportada_def)

subsection \<open>Frequency conversion\<close>

text \<open>
  Claim C6. \<open>calcular_monto_mensual_segun_frecuencia\<close> returns the base amount for
  Mensual, twice it for Quincenal, a twelfth of it for Anual, and the base amount times
  \<open>calcular_semanas_del_mes\<close> for Semanal (in a supported month, where the week count
  returns); for the four frequencies the result is not negative when the base amount
  is not.
\<close>
theorem calcular_monto_mensual_segun_frecuencia_reglas:
  "calcular_monto_mensual_segun_frecuencia b ''Mensual'' m y = Some b \<and>
   calcular_monto_mensual_segun_frecuencia b ''Quincenal'' m y = Some (b * 2) \<and>
   calcular_monto_mensual_segun_frecuencia b ''Anual'' m y = Some (b / 12) \<and>
   (fecha_soportada m y \<longrightarrow>
      (\<exists>n. calcular_semanas_del_mes m y = Some n \<and>
           calcular_monto_mensual_segun_frecuencia b ''Semanal'' m y = Some (b * real_of_int n))) \<and>
   (0 \<le> b \<and> fecha_soportada m y \<longrightarrow>
      (\<forall>f \<in> {''Mensual'', ''Semanal'', ''Quincenal'', ''Anual''}.
         \<exists>v. calcular_monto_mensual_segun_frecuencia b f m y = Some v \<and> 0 \<le> v))"
proof -
  have sem: "\<exists>n. 0 \<le> n \<and> calcular_semanas_del_mes m y = Some n \<and>
      calcular_monto_mensual_segun_frecuencia b ''Semanal'' m y = Some (b * real_of_int n)"
    if "fecha_soportada m y"
    using calcular_semanas_del_mes_4_5 [OF that]
    by (auto simp add: calcular_monto_mensual_segun_frecuencia_def)
  have fixed:
    "calcular_monto_mensual_segun_frecuencia b ''Mensual'' m y = Some b"
    "calcular_monto_mensual_segun_frecuencia b ''Quincenal'' m y = Some (b * 2)"
    "calcular_monto_mensual_segun_frecuencia b ''Anual'' m y = Some (b / 12)"
    by (simp_all add: calcular_monto_mensual_segun_frecuencia_def)
  have pos: "\<exists>v. calcular_monto_mensual_segun_frecuencia b ''Semanal'' m y = Some v \<and> 0 \<le> v"
    if "0 \<le> b" "fecha_soportada m y"
  proof -
    from sem [OF that(2)] obtain n where "0 \<le> n"
      "calcular_monto_mensual_segun_frecuencia b ''Semanal'' m y = Some (b * real_of_int n)"
      by blast
    with that(1) show ?thesis by simp
  qed
  have todas: "\<forall>f \<in> {''Mensual'', ''Semanal'', ''Quincenal'', ''Anual''}.
      \<exists>v. calcular_monto_mensual_segun_frecuencia b f m y = Some v \<and> 0 \<le> v"
    if "0 \<le> b" "fecha_soportada m y"
  proof -
    have "\<exists>v. calcular_monto_mensual_segun_frecuencia b ''Mensual'' m y = Some v \<and> 0 \<le> v"
      using that(1) fixed(1) by (intro exI [of _ b]) simp
    moreover
    have "\<exists>v. calcular_monto_mensual_segun_frecuencia b ''Quincenal'' m y = Some v \<and> 0 \<le> v"
      using that(1) fixed(2) by (intro exI [of _ "b * 2"]) simp
    moreover
    have "\<exists>v. calcular_monto_mensual_segun_frecuencia b ''Anual'' m y = Some v \<and> 0 \<le> v"
      using that(1) fixed(3) by (intro exI [of _ "b / 12"]) simp
    ultimately show ?thesis using pos [OF that] by blast
  qed
  from sem have sem': "fecha_soportada m y \<longrightarrow>
      (\<exists>n. calcular_semanas_del_mes m y = Some n \<and>
           calcular_monto_mensual_segun_frecuencia b ''Semanal'' m y = Some (b * real_of_int n))"
    by blast
  from todas have todas': "0 \<le> b \<and> fecha_soportada m y \<longrightarrow>
      (\<forall>f \<in> {''Mensual'', ''Semanal'', ''Quincenal'', ''Anual''}.
         \<exists>v. calcular_monto_mensual_segun_frecuencia b f m y = Some v \<and> 0 \<le> v)"
    by blast
  show ?thesis by (intro conjI fixed sem' todas')
qed

theorem calcular_monto_mensual_segun_frecuencia_reglas_witness:
  "0 \<le> (10::real) \<and> fecha_soportada 2 2024 \<and>
   calcular_semanas_del_mes 2 2024 = Some 4 \<and>
   calcular_monto_mensual_segun_frecuencia 10 ''Semanal'' 2 2024 = Some 40 \<and>
   calcular_monto_mensual_segun_frecuencia 10 ''Anual'' 2 2024 = Some (10 / 12)"
  using calcular_monto_mensual_segun_frecuencia_reglas [of 10 2 2024] semanas_febrero_2024
  by (auto simp add: fecha_soportada_def)

subsection \<open>Distribution of a payment\<close>

lemma or_default_0: "or_default x 0 = (case x of None \<Rightarrow> 0 | Some v \<Rightarrow> v)"
  by (simp add: or_default_def split: option.split)

lemma or_default_celda_num:
  "or_default_celda x d = Num f \<longleftrightarrow>
   x = None \<and> f = d \<or> (\<exists>v. x = Some (Num v) \<and> f = (if v = 0 then d else v))"
  by (auto simp add: or_default_celda_def split: option.splits flotante.splits)

text \<open>
  A \<open>NULL\<close> read as \<open>NaN\<close> is not replaced by the default: the fixed payer's share is
  \<open>NaN\<close> and the other share is 0.
\<close>
lemma calcular_distribucion_pago_nan:
  assumes "fc_tipo_distribucion gasto = ''fijo_ricardo''"
    and "fc_monto_fijo_ricardo gasto = Some NaN"
  shows "calcular_distribucion_pago gasto mt = (NaN, Num 0)"
  using assms
  by (simp add: calcular_distribucion_pago_def or_default_celda_def resta_def max_cero_def)

text \<open>
  Such a \<open>NaN\<close> comes out of the query: in \<open>db_saldo\<close> the first expense has a fixed
  amount for Ricardo and the second has none.
\<close>
lemma obtener_montos_configurados_nan:
  "map fc_monto_fijo_ricardo (obtener_montos_configurados db_saldo 3 2025) =
     [Some (Num 70), Some NaN] \<and>
   map fc_monto_fijo_wendy (obtener_montos_configurados db_saldo 3 2025) = [None, None]"
  by (simp add: obtener_montos_configurados_def filas_de_la_consulta_def fila_configurada_def
      celda_def db_saldo_def gasto_base_def Let_def)




subsection \<open>Monthly amounts\<close>

text \<open>
  Claim C9. \<open>obtener_monto_del_mes\<close> always returns an amount: when there is neither an
  override row for (expense, month, year) nor an expense row with that id, the result
  is 0.
\<close>
theorem obtener_monto_del_mes_sin_filas:
  assumes "\<forall>m \<in> set (montos_mensuales conn).
             \<not> (mm_gasto_id m = gasto_id \<and> mm_mes m = mes \<and> mm_anio m = anio)"
      and "\<forall>g \<in> set (gastos_mensuales conn). gm_id g \<noteq> gasto_id"
  shows "obtener_monto_del_mes conn gasto_id mes anio = 0"
proof -
  have "filter (\<lambda>m. mm_gasto_id m = gasto_id \<and> mm_mes m = mes \<and> mm_anio m = anio)
          (montos_mensuales conn) = []"
    using assms(1) by (simp add: filter_empty_conv)
  moreover have "filter (\<lambda>g. gm_id g = gasto_id) (gastos_mensuales conn) = []"
    using assms(2) by (simp add: filter_empty_conv)
  ultimately show ?thesis by (simp add: obtener_monto_del_mes_def)
qed

theorem obtener_monto_del_mes_sin_filas_witness:
  "montos_mensuales db_grupo = [] \<and>
   map gm_id (gastos_mensuales db_grupo) = [1, 2, 3] \<and>
   obtener_monto_del_mes db_grupo 99 3 2025 = 0"
proof -
  have m: "montos_mensuales db_grupo = []" by (simp add: db_grupo_def)
  have g: "map gm_id (gastos_mensuales db_grupo) = [1, 2, 3]"
    by (simp add: db_grupo_def gasto_base_def)
  have h1: "\<forall>m \<in> set (montos_mensuales db_grupo).
      \<not> (mm_gasto_id m = 99 \<and> mm_mes m = 3 \<and> mm_anio m = 2025)"
    by (simp add: m)
  have "99 \<notin> set (map gm_id (gastos_mensuales db_grupo))" unfolding g by simp
  then have h2: "\<forall>g \<in> set (gastos_mensuales db_grupo). gm_id g \<noteq> 99" by auto
  show ?thesis by (intro conjI m g obtener_monto_del_mes_sin_filas [OF h1 h2])
qed

subsection \<open>Group membership\<close>

lemma actualizar_tipo_distribucion_ids:
  "map gm_id (actualizar_tipo_distribucion tipo donde gastos) = map gm_id gastos"
  by (induction gastos) (simp_all add: actualizar_tipo_distribucion_def)

lemma actualizar_tipo_distribucion_set:
  "set (actualizar_tipo_distribucion tipo donde gastos) =
   (\<lambda>g. if donde g then g\<lparr>gm_tipo_distribucion := tipo\<rparr> else g) ` set gastos"
  by (simp add: actualizar_tipo_distribucion_def)

text \<open>After the update every expense that the \<open>WHERE\<close> clause selects by id has the new kind.\<close>
lemma actualizar_tipo_distribucion_por_id:
  assumes "g \<in> set (actualizar_tipo_distribucion tipo (\<lambda>g. gm_id g \<in> ids) gastos)"
    and "gm_id g \<in> ids"
  shows "gm_tipo_distribucion g = tipo"
proof -
  from assms(1) obtain g0 where
    g: "g = (if gm_id g0 \<in> ids then g0\<lparr>gm_tipo_distribucion := tipo\<rparr> else g0)"
    unfolding actualizar_tipo_distribucion_set by blast
  show ?thesis
  proof (cases "gm_id g0 \<in> ids")
    case True
    then show ?thesis by (simp add: g)
  next
    case False
    then have "g = g0" by (simp add: g)
    with assms(2) False show ?thesis by simp
  qed
qed

lemma actualizar_tipo_distribucion_un_id:
  assumes "g \<in> set (actualizar_tipo_distribucion tipo (\<lambda>g. gm_id g = i) gastos)"
    and "gm_id g = i"
  shows "gm_tipo_distribucion g = tipo"
  using actualizar_tipo_distribucion_por_id [of g tipo "{i}" gastos] assms by simp

text \<open>
  Claim C10. \<open>remover_gasto_de_grupo\<close> resets the kind of the expense to \<open>50/50\<close>
  whatever the membership rows are, and changes no id; its result tells whether an expense
  row with that id exists, not whether a membership row was deleted.
\<close>
theorem remover_gasto_de_grupo_incondicional:
  "snd (remover_gasto_de_grupo conn grupo_id gasto_id) =
     (\<exists>g \<in> set (gastos_mensuales conn). gm_id g = gasto_id) \<and>
   (\<forall>g \<in> set (gastos_mensuales (fst (remover_gasto_de_grupo conn grupo_id gasto_id))).
      gm_id g = gasto_id \<longrightarrow> gm_tipo_distribucion g = ''50/50'') \<and>
   map gm_id (gastos_mensuales (fst (remover_gasto_de_grupo conn grupo_id gasto_id))) =
     map gm_id (gastos_mensuales conn)"
proof (intro conjI)
  have "(filter (\<lambda>g. gm_id g = gasto_id) (gastos_mensuales conn) \<noteq> []) =
     (\<exists>g \<in> set (gastos_mensuales conn). gm_id g = gasto_id)"
    by (simp add: filter_empty_conv)
  then show "snd (remover_gasto_de_grupo conn grupo_id gasto_id) =
     (\<exists>g \<in> set (gastos_mensuales conn). gm_id g = gasto_id)"
    by (simp add: remover_gasto_de_grupo_def)
  show "\<forall>g \<in> set (gastos_mensuales (fst (remover_gasto_de_grupo conn grupo_id gasto_id))).
      gm_id g = gasto_id \<longrightarrow> gm_tipo_distribucion g = ''50/50''"
    using actualizar_tipo_distribucion_un_id
    by (simp add: remover_gasto_de_grupo_def)
  show "map gm_id (gastos_mensuales (fst (remover_gasto_de_grupo conn grupo_id gasto_id))) =
     map gm_id (gastos_mensuales conn)"
    by (simp add: remover_gasto_de_grupo_def actualizar_tipo_distribucion_ids)
qed

text \<open>Expense 3 is in no group: nothing is deleted, its kind is reset, the result is True.\<close>
theorem remover_gasto_de_grupo_incondicional_witness:
  "\<lparr>ge_grupo_id = 1, ge_gasto_id = 3\<rparr> \<notin> set (gastos_en_grupo db_grupo) \<and>
   gastos_en_grupo (fst (remover_gasto_de_grupo db_grupo 1 3)) = gastos_en_grupo db_grupo \<and>
   map gm_tipo_distribucion (gastos_mensuales db_grupo) =
     [''agrupado'', ''agrupado'', ''personalizado''] \<and>
   map gm_tipo_distribucion (gastos_mensuales (fst (remover_gasto_de_grupo db_grupo 1 3))) =
     [''agrupado'', ''agrupado'', ''50/50''] \<and>
   snd (remover_gasto_de_grupo db_grupo 1 3) \<and>
   \<not> snd (remover_gasto_de_grupo db_grupo 1 99)"
  using remover_gasto_de_grupo_incondicional [of db_grupo 1 3]
    remover_gasto_de_grupo_incondicional [of db_grupo 1 99]
  by (simp add: db_grupo_def gasto_base_def remover_gasto_de_grupo_def
      actualizar_tipo_distribucion_def)

lemma actualizar_tipo_distribucion_dos:
  "actualizar_tipo_distribucion tipo (\<lambda>g. gm_id g \<in> ids)
     (actualizar_tipo_distribucion tipo (\<lambda>g. gm_id g = i) gastos) =
   actualizar_tipo_distribucion tipo (\<lambda>g. gm_id g \<in> insert i ids) gastos"
  by (induction gastos) (simp_all add: actualizar_tipo_distribucion_def)

text \<open>The loop of \<open>crear_grupo_distribucion\<close>, when no \<open>INSERT\<close> fails, in one step.\<close>
lemma asociar_gastos_eq:
  "asociar_gastos conn grupo_id ids = Some conn' \<Longrightarrow>
   gastos_mensuales conn' =
     actualizar_tipo_distribucion ''agrupado'' (\<lambda>g. gm_id g \<in> set ids) (gastos_mensuales conn) \<and>
   gastos_en_grupo conn' =
     gastos_en_grupo conn @ map (\<lambda>i. \<lparr>ge_grupo_id = grupo_id, ge_gasto_id = i\<rparr>) ids"
proof (induction ids arbitrary: conn)
  case Nil
  then show ?case by (simp add: actualizar_tipo_distribucion_def)
next
  case (Cons i ids)
  define conn1 where "conn1 =
    conn\<lparr>gastos_en_grupo :=
           gastos_en_grupo conn @ [\<lparr>ge_grupo_id = grupo_id, ge_gasto_id = i\<rparr>],
         gastos_mensuales :=
           actualizar_tipo_distribucion ''agrupado'' (\<lambda>g. gm_id g = i) (gastos_mensuales conn)\<rparr>"
  from Cons.prems have "asociar_gastos conn1 grupo_id ids = Some conn'"
    by (simp add: conn1_def split: if_splits)
  from Cons.IH [OF this] show ?case
    by (simp add: conn1_def actualizar_tipo_distribucion_dos)
qed

lemma agregar_gasto_a_grupo_agrupado:
  assumes "agregar_gasto_a_grupo conn grupo_id gasto_id = (conn', True)"
  shows "\<lparr>ge_grupo_id = grupo_id, ge_gasto_id = gasto_id\<rparr> \<in> set (gastos_en_grupo conn')"
    and "\<forall>g \<in> set (gastos_mensuales conn').
           gm_id g = gasto_id \<longrightarrow> gm_tipo_distribucion g = ''agrupado''"
proof -
  from assms have c: "conn' =
    conn\<lparr>gastos_en_grupo :=
           gastos_en_grupo conn @ [\<lparr>ge_grupo_id = grupo_id, ge_gasto_id = gasto_id\<rparr>],
         gastos_mensuales :=
           actualizar_tipo_distribucion ''agrupado'' (\<lambda>g. gm_id g = gasto_id)
             (gastos_mensuales conn)\<rparr>"
    by (simp add: agregar_gasto_a_grupo_def split: if_splits)
  show "\<lparr>ge_grupo_id = grupo_id, ge_gasto_id = gasto_id\<rparr> \<in> set (gastos_en_grupo conn')"
    by (simp add: c)
  show "\<forall>g \<in> set (gastos_mensuales conn').
         gm_id g = gasto_id \<longrightarrow> gm_tipo_distribucion g = ''agrupado''"
    using actualizar_tipo_distribucion_un_id by (simp add: c)
qed

lemma crear_grupo_distribucion_agrupado:
  assumes "crear_grupo_distribucion conn nombre descripcion quien monto_fijo gastos_ids =
      (conn', Some nuevo)"
    and i: "i \<in> set gastos_ids"
  shows "\<lparr>ge_grupo_id = nuevo, ge_gasto_id = i\<rparr> \<in> set (gastos_en_grupo conn')"
    and "\<forall>g \<in> set (gastos_mensuales conn').
            gm_id g = i \<longrightarrow> gm_tipo_distribucion g = ''agrupado''"
proof -
  define conn1 where "conn1 = conn\<lparr>grupos_distribucion :=
       grupos_distribucion conn @
       [\<lparr>gd_id = nuevo_grupo_id conn, gd_nombre = nombre, gd_descripcion = descripcion,
         gd_monto_fijo_ricardo = (if quien = ''Ricardo'' then Some monto_fijo else None),
         gd_monto_fijo_wendy = (if quien = ''Wendy'' then Some monto_fijo else None),
         gd_quien_paga_fijo = quien, gd_activo = 1\<rparr>]\<rparr>"
  have eq: "crear_grupo_distribucion conn nombre descripcion quien monto_fijo gastos_ids =
     (case asociar_gastos conn1 (nuevo_grupo_id conn) gastos_ids of
        Some conn2 \<Rightarrow> (conn2, Some (nuevo_grupo_id conn)) | None \<Rightarrow> (conn, None))"
    unfolding crear_grupo_distribucion_def Let_def conn1_def ..
  from assms(1) have "asociar_gastos conn1 nuevo gastos_ids = Some conn'"
    unfolding eq by (cases "asociar_gastos conn1 (nuevo_grupo_id conn) gastos_ids") simp_all
  from asociar_gastos_eq [OF this] have
    gm: "gastos_mensuales conn' =
      actualizar_tipo_distribucion ''agrupado'' (\<lambda>g. gm_id g \<in> set gastos_ids)
        (gastos_mensuales conn1)" and
    ge: "gastos_en_grupo conn' =
      gastos_en_grupo conn1 @ map (\<lambda>i. \<lparr>ge_grupo_id = nuevo, ge_gasto_id = i\<rparr>) gastos_ids"
    by simp_all
  show "\<lparr>ge_grupo_id = nuevo, ge_gasto_id = i\<rparr> \<in> set (gastos_en_grupo conn')"
    using i by (simp add: ge)
  show "\<forall>g \<in> set (gastos_mensuales conn').
            gm_id g = i \<longrightarrow> gm_tipo_distribucion g = ''agrupado''"
  proof (intro ballI impI)
    fix g assume "g \<in> set (gastos_mensuales conn')" "gm_id g = i"
    with i show "gm_tipo_distribucion g = ''agrupado''"
      using actualizar_tipo_distribucion_por_id [of g "''agrupado''" "set gastos_ids"]
      by (simp add: gm)
  qed
qed

lemma remover_gasto_de_grupo_5050:
  assumes "remover_gasto_de_grupo conn grupo_id gasto_id = (conn', b)"
  shows "\<lparr>ge_grupo_id = grupo_id, ge_gasto_id = gasto_id\<rparr> \<notin> set (gastos_en_grupo conn')"
    and "\<forall>g \<in> set (gastos_mensuales conn').
           gm_id g = gasto_id \<longrightarrow> gm_tipo_distribucion g = ''50/50''"
proof -
  from assms have c: "conn' = fst (remover_gasto_de_grupo conn grupo_id gasto_id)" by simp
  show "\<lparr>ge_grupo_id = grupo_id, ge_gasto_id = gasto_id\<rparr> \<notin> set (gastos_en_grupo conn')"
    by (simp add: c remover_gasto_de_grupo_def)
  show "\<forall>g \<in> set (gastos_mensuales conn').
         gm_id g = gasto_id \<longrightarrow> gm_tipo_distribucion g = ''50/50''"
    using actualizar_tipo_distribucion_un_id by (simp add: c remover_gasto_de_grupo_def)
qed

lemma eliminar_grupo_distribucion_5050:
  assumes "eliminar_grupo_distribucion conn grupo_id = (conn', b)"
  shows "\<forall>gd \<in> set (grupos_distribucion conn'). gd_id gd = grupo_id \<longrightarrow> gd_activo gd = 0"
    and "\<forall>r \<in> set (gastos_en_grupo conn). ge_grupo_id r = grupo_id \<longrightarrow>
         (\<forall>g \<in> set (gastos_mensuales conn').
            gm_id g = ge_gasto_id r \<longrightarrow> gm_tipo_distribucion g = ''50/50'')"
proof -
  from assms have c: "conn' = fst (eliminar_grupo_distribucion conn grupo_id)" by simp
  show "\<forall>gd \<in> set (grupos_distribucion conn'). gd_id gd = grupo_id \<longrightarrow> gd_activo gd = 0"
  proof (intro ballI impI)
    fix gd assume "gd \<in> set (grupos_distribucion conn')" and i: "gd_id gd = grupo_id"
    then have "\<exists>x. gd = x\<lparr>gd_activo := 0\<rparr>"
      unfolding c eliminar_grupo_distribucion_def by (simp add: image_iff) blast
    then obtain x where "gd = x\<lparr>gd_activo := 0\<rparr>" by blast
    then show "gd_activo gd = 0" by simp
  qed
  show "\<forall>r \<in> set (gastos_en_grupo conn). ge_grupo_id r = grupo_id \<longrightarrow>
         (\<forall>g \<in> set (gastos_mensuales conn').
            gm_id g = ge_gasto_id r \<longrightarrow> gm_tipo_distribucion g = ''50/50'')"
  proof (intro ballI impI)
    fix r g
    assume r: "r \<in> set (gastos_en_grupo conn)" "ge_grupo_id r = grupo_id"
      and g: "g \<in> set (gastos_mensuales conn')" "gm_id g = ge_gasto_id r"
    define ids where
      "ids = set (map ge_gasto_id (filter (\<lambda>r. ge_grupo_id r = grupo_id) (gastos_en_grupo conn)))"
    have "gm_id g \<in> ids" using r g(2) by (simp add: ids_def)
    moreover have "g \<in> set (actualizar_tipo_distribucion ''50/50'' (\<lambda>g. gm_id g \<in> ids)
        (gastos_mensuales conn))"
      using g(1) by (simp add: c eliminar_grupo_distribucion_def ids_def)
    ultimately show "gm_tipo_distribucion g = ''50/50''"
      by (rule actualizar_tipo_distribucion_por_id [rotated])
  qed
qed

text \<open>
  Claim C8. An expense added to a group, by \<open>agregar_gasto_a_grupo\<close> (when it returns
  True) or by \<open>crear_grupo_distribucion\<close> (when it returns the new id), has a membership
  row and the kind \<open>agrupado\<close>; an expense removed from a group has no membership row
  for it and the kind \<open>50/50\<close>; when a group is deleted it is marked inactive and every
  expense that has a membership row for it gets the kind \<open>50/50\<close>.
\<close>
theorem pertenencia_a_grupo_fija_tipo_distribucion:
  "(agregar_gasto_a_grupo conn grupo_id gasto_id = (conn', True) \<longrightarrow>
      \<lparr>ge_grupo_id = grupo_id, ge_gasto_id = gasto_id\<rparr> \<in> set (gastos_en_grupo conn') \<and>
      (\<forall>g \<in> set (gastos_mensuales conn').
         gm_id g = gasto_id \<longrightarrow> gm_tipo_distribucion g = ''agrupado'')) \<and>
   (crear_grupo_distribucion conn nombre descripcion quien monto_fijo gastos_ids =
      (conn', Some nuevo) \<longrightarrow>
      (\<forall>i \<in> set gastos_ids.
         \<lparr>ge_grupo_id = nuevo, ge_gasto_id = i\<rparr> \<in> set (gastos_en_grupo conn') \<and>
         (\<forall>g \<in> set (gastos_mensuales conn').
            gm_id g = i \<longrightarrow> gm_tipo_distribucion g = ''agrupado''))) \<and>
   (remover_gasto_de_grupo conn grupo_id gasto_id = (conn', b) \<longrightarrow>
      \<lparr>ge_grupo_id = grupo_id, ge_gasto_id = gasto_id\<rparr> \<notin> set (gastos_en_grupo conn') \<and>
      (\<forall>g \<in> set (gastos_mensuales conn').
         gm_id g = gasto_id \<longrightarrow> gm_tipo_distribucion g = ''50/50'')) \<and>
   (eliminar_grupo_distribucion conn grupo_id = (conn', b) \<longrightarrow>
      (\<forall>gd \<in> set (grupos_distribucion conn'). gd_id gd = grupo_id \<longrightarrow> gd_activo gd = 0) \<and>
      (\<forall>r \<in> set (gastos_en_grupo conn). ge_grupo_id r = grupo_id \<longrightarrow>
         (\<forall>g \<in> set (gastos_mensuales conn').
            gm_id g = ge_gasto_id r \<longrightarrow> gm_tipo_distribucion g = ''50/50'')))"
  by (intro conjI impI ballI agregar_gasto_a_grupo_agrupado crear_grupo_distribucion_agrupado
      remover_gasto_de_grupo_5050 eliminar_grupo_distribucion_5050; assumption)

lemmas db_grupo_defs = db_grupo_def gasto_base_def pago_de_def

theorem pertenencia_a_grupo_fija_tipo_distribucion_witness:
  "agregar_gasto_a_grupo db_grupo 1 3 = (fst (agregar_gasto_a_grupo db_grupo 1 3), True) \<and>
   \<lparr>ge_grupo_id = 1, ge_gasto_id = 3\<rparr>
     \<in> set (gastos_en_grupo (fst (agregar_gasto_a_grupo db_grupo 1 3))) \<and>
   list_all (\<lambda>g. gm_id g = 3 \<longrightarrow> gm_tipo_distribucion g = ''agrupado'')
     (gastos_mensuales (fst (agregar_gasto_a_grupo db_grupo 1 3))) \<and>
   crear_grupo_distribucion db_grupo ''Red'' ''Casa'' ''Wendy'' 20 [3] =
     (fst (crear_grupo_distribucion db_grupo ''Red'' ''Casa'' ''Wendy'' 20 [3]), Some 2) \<and>
   \<lparr>ge_grupo_id = 2, ge_gasto_id = 3\<rparr> \<in> set (gastos_en_grupo
      (fst (crear_grupo_distribucion db_grupo ''Red'' ''Casa'' ''Wendy'' 20 [3]))) \<and>
   list_all (\<lambda>g. gm_id g = 3 \<longrightarrow> gm_tipo_distribucion g = ''agrupado'')
     (gastos_mensuales (fst (crear_grupo_distribucion db_grupo ''Red'' ''Casa'' ''Wendy'' 20 [3]))) \<and>
   \<lparr>ge_grupo_id = 1, ge_gasto_id = 2\<rparr>
     \<notin> set (gastos_en_grupo (fst (remover_gasto_de_grupo db_grupo 1 2))) \<and>
   list_all (\<lambda>g. gm_id g = 2 \<longrightarrow> gm_tipo_distribucion g = ''50/50'')
     (gastos_mensuales (fst (remover_gasto_de_grupo db_grupo 1 2))) \<and>
   list_all (\<lambda>gd. gd_id gd = 1 \<longrightarrow> gd_activo gd = 0)
     (grupos_distribucion (fst (eliminar_grupo_distribucion db_grupo 1))) \<and>
   map gm_tipo_distribucion (gastos_mensuales db_grupo) =
     [''agrupado'', ''agrupado'', ''personalizado''] \<and>
   map gm_tipo_distribucion (gastos_mensuales (fst (agregar_gasto_a_grupo db_grupo 1 3))) =
     [''agrupado'', ''agrupado'', ''agrupado''] \<and>
   map gm_tipo_distribucion
     (gastos_mensuales (fst (crear_grupo_distribucion db_grupo ''Red'' ''Casa'' ''Wendy'' 20 [3]))) =
     [''agrupado'', ''agrupado'', ''agrupado''] \<and>
   map gm_tipo_distribucion (gastos_mensuales (fst (remover_gasto_de_grupo db_grupo 1 2))) =
     [''agrupado'', ''50/50'', ''personalizado''] \<and>
   map gm_tipo_distribucion (gastos_mensuales (fst (eliminar_grupo_distribucion db_grupo 1))) =
     [''50/50'', ''50/50'', ''personalizado'']"
proof -
  have h1: "agregar_gasto_a_grupo db_grupo 1 3 =
      (fst (agregar_gasto_a_grupo db_grupo 1 3), True)"
    by (simp add: db_grupo_defs agregar_gasto_a_grupo_def)
  note c1 = pertenencia_a_grupo_fija_tipo_distribucion
    [where conn = db_grupo and grupo_id = 1 and gasto_id = 3, THEN conjunct1, THEN mp, OF h1]
  have h2: "crear_grupo_distribucion db_grupo ''Red'' ''Casa'' ''Wendy'' 20 [3] =
     (fst (crear_grupo_distribucion db_grupo ''Red'' ''Casa'' ''Wendy'' 20 [3]), Some 2)"
    by (simp add: db_grupo_defs crear_grupo_distribucion_def nuevo_grupo_id_def Let_def)
  note c2 = pertenencia_a_grupo_fija_tipo_distribucion
    [where conn = db_grupo, THEN conjunct2, THEN conjunct1, THEN mp, OF h2, THEN bspec, of 3]
  have h3: "remover_gasto_de_grupo db_grupo 1 2 =
      (fst (remover_gasto_de_grupo db_grupo 1 2), snd (remover_gasto_de_grupo db_grupo 1 2))"
    by simp
  note c3 = pertenencia_a_grupo_fija_tipo_distribucion
    [where conn = db_grupo, THEN conjunct2, THEN conjunct2, THEN conjunct1, THEN mp, OF h3]
  have h4: "eliminar_grupo_distribucion db_grupo 1 =
      (fst (eliminar_grupo_distribucion db_grupo 1), snd (eliminar_grupo_distribucion db_grupo 1))"
    by simp
  note c4 = pertenencia_a_grupo_fija_tipo_distribucion
    [where conn = db_grupo, THEN conjunct2, THEN conjunct2, THEN conjunct2, THEN mp, OF h4]
  have a1: "\<lparr>ge_grupo_id = 1, ge_gasto_id = 3\<rparr>
      \<in> set (gastos_en_grupo (fst (agregar_gasto_a_grupo db_grupo 1 3)))"
    by (rule c1 [THEN conjunct1])
  have a2: "list_all (\<lambda>g. gm_id g = 3 \<longrightarrow> gm_tipo_distribucion g = ''agrupado'')
      (gastos_mensuales (fst (agregar_gasto_a_grupo db_grupo 1 3)))"
    unfolding list_all_iff by (rule c1 [THEN conjunct2])
  have "3 \<in> set [3::int]" by simp
  note c2' = c2 [OF this]
  have b1: "\<lparr>ge_grupo_id = 2, ge_gasto_id = 3\<rparr> \<in> set (gastos_en_grupo
      (fst (crear_grupo_distribucion db_grupo ''Red'' ''Casa'' ''Wendy'' 20 [3])))"
    by (rule c2' [THEN conjunct1])
  have b2: "list_all (\<lambda>g. gm_id g = 3 \<longrightarrow> gm_tipo_distribucion g = ''agrupado'')
      (gastos_mensuales (fst (crear_grupo_distribucion db_grupo ''Red'' ''Casa'' ''Wendy'' 20 [3])))"
    unfolding list_all_iff by (rule c2' [THEN conjunct2])
  have r1: "\<lparr>ge_grupo_id = 1, ge_gasto_id = 2\<rparr>
      \<notin> set (gastos_en_grupo (fst (remover_gasto_de_grupo db_grupo 1 2)))"
    by (rule c3 [THEN conjunct1])
  have r2: "list_all (\<lambda>g. gm_id g = 2 \<longrightarrow> gm_tipo_distribucion g = ''50/50'')
      (gastos_mensuales (fst (remover_gasto_de_grupo db_grupo 1 2)))"
    unfolding list_all_iff by (rule c3 [THEN conjunct2])
  have d1: "list_all (\<lambda>gd. gd_id gd = 1 \<longrightarrow> gd_activo gd = 0)
      (grupos_distribucion (fst (eliminar_grupo_distribucion db_grupo 1)))"
    unfolding list_all_iff by (rule c4 [THEN conjunct1])
  have e0: "map gm_tipo_distribucion (gastos_mensuales db_grupo) =
     [''agrupado'', ''agrupado'', ''personalizado'']"
    by (simp add: db_grupo_defs)
  have e1: "map gm_tipo_distribucion (gastos_mensuales (fst (agregar_gasto_a_grupo db_grupo 1 3))) =
     [''agrupado'', ''agrupado'', ''agrupado'']"
    by (simp add: db_grupo_defs agregar_gasto_a_grupo_def actualizar_tipo_distribucion_def)
  have e2: "map gm_tipo_distribucion
     (gastos_mensuales (fst (crear_grupo_distribucion db_grupo ''Red'' ''Casa'' ''Wendy'' 20 [3]))) =
     [''agrupado'', ''agrupado'', ''agrupado'']"
    by (simp add: db_grupo_defs crear_grupo_distribucion_def nuevo_grupo_id_def
        actualizar_tipo_distribucion_def Let_def)
  have e3: "map gm_tipo_distribucion (gastos_mensuales (fst (remover_gasto_de_grupo db_grupo 1 2))) =
     [''agrupado'', ''50/50'', ''personalizado'']"
    by (simp add: db_grupo_defs remover_gasto_de_grupo_def actualizar_tipo_distribucion_def)
  have e4: "map gm_tipo_distribucion (gastos_mensuales (fst (eliminar_grupo_distribucion db_grupo 1))) =
     [''50/50'', ''50/50'', ''personalizado'']"
    by (simp add: db_grupo_defs eliminar_grupo_distribucion_def actualizar_tipo_distribucion_def)
  show ?thesis by (intro conjI h1 a1 a2 h2 b1 b2 r1 r2 d1 e0 e1 e2 e3 e4)
qed

subsection \<open>The monthly table and the net balance\<close>

lemmas tabla_defs =
  calcular_tabla_mensual_def obtener_montos_configurados_def filas_de_la_consulta_def
  fila_configurada_def celda_def or_default_celda_def resta_def por_ciento_def max_cero_def
  obtener_grupos_distribucion_def gastos_activos_de_grupo_def miembros_activos_def
  fila_de_grupo_def fila_de_gasto_def obtener_monto_del_mes_def
  calcular_monto_mensual_segun_frecuencia_def calcular_distribucion_pago_def or_default_def
  verificar_pago_existente_def obtener_semanas_pagadas_def Let_def

text \<open>
  The claim C2 as stated fails at \<open>db_saldo\<close>: the rows of the table owe Ricardo
  70 + 20 and Wendy 30 + 20, and the net balance owes each of them 60.
\<close>
theorem calcular_saldo_neto_reparto_counterexample:
  "calcular_tabla_mensual db_saldo 3 2025 =
     Some [\<lparr>ft_id = IdGasto 1, ft_monto_total = 100, ft_frecuencia = ''Mensual'',
             ft_debe_ricardo = Num 70, ft_debe_wendy = Num 30,
             ft_ricardo_pago = True, ft_wendy_pago = False\<rparr>,
           \<lparr>ft_id = IdGasto 2, ft_monto_total = 40, ft_frecuencia = ''Quincenal'',
             ft_debe_ricardo = Num 20, ft_debe_wendy = Num 20,
             ft_ricardo_pago = False, ft_wendy_pago = False\<rparr>] \<and>
   sn_total_debe_cada_uno (calcular_saldo_neto db_saldo 3 2025) = 60 \<and>
   (70::real) + 20 \<noteq> 60 \<and> (30::real) + 20 \<noteq> 60"
  by (simp add: tabla_defs db_saldo_def db_grupo_defs calcular_saldo_neto_def total_pagado_def)

text \<open>
  Claim C2, amended. \<open>calcular_saldo_neto\<close> owes both persons the same figure: half the sum
  of the configured amounts of the active expenses (the month's override for an expense of
  variable amount, else the base amount), with no frequency conversion and no distribution
  rule. Paid per person is the sum of all that person's payment records of the month,
  whatever the expense, and pending per person is owed minus paid, not clamped.
\<close>
theorem calcular_saldo_neto_componentes:
  "sn_total_debe_cada_uno (calcular_saldo_neto conn mes anio) =
     sum_list (map fc_monto_total (obtener_montos_configurados conn mes anio)) / 2 \<and>
   sn_pagado_ricardo (calcular_saldo_neto conn mes anio) =
     sum_list (map pg_monto_pagado
       (filter (\<lambda>p. pg_mes p = mes \<and> pg_anio p = anio \<and> pg_quien_pago p = ''Ricardo'')
          (pagos conn))) \<and>
   sn_pagado_wendy (calcular_saldo_neto conn mes anio) =
     sum_list (map pg_monto_pagado
       (filter (\<lambda>p. pg_mes p = mes \<and> pg_anio p = anio \<and> pg_quien_pago p = ''Wendy'')
          (pagos conn))) \<and>
   sn_saldo_ricardo (calcular_saldo_neto conn mes anio) =
     sn_total_debe_cada_uno (calcular_saldo_neto conn mes anio) -
     sn_pagado_ricardo (calcular_saldo_neto conn mes anio) \<and>
   sn_saldo_wendy (calcular_saldo_neto conn mes anio) =
     sn_total_debe_cada_uno (calcular_saldo_neto conn mes anio) -
     sn_pagado_wendy (calcular_saldo_neto conn mes anio)"
  by (simp add: calcular_saldo_neto_def total_pagado_def Let_def)

theorem calcular_saldo_neto_componentes_witness:
  "map fc_monto_total (obtener_montos_configurados db_saldo 3 2025) = [100, 20] \<and>
   sn_total_debe_cada_uno (calcular_saldo_neto db_saldo 3 2025) = 60 \<and>
   sn_pagado_ricardo (calcular_saldo_neto db_saldo 3 2025) = 100 \<and>
   sn_pagado_wendy (calcular_saldo_neto db_saldo 3 2025) = 0 \<and>
   sn_saldo_ricardo (calcular_saldo_neto db_saldo 3 2025) = - 40 \<and>
   sn_saldo_wendy (calcular_saldo_neto db_saldo 3 2025) = 60"
proof -
  note c = calcular_saldo_neto_componentes [of db_saldo 3 2025]
  have df: "map fc_monto_total (obtener_montos_configurados db_saldo 3 2025) = [100, 20]"
    by (simp add: db_saldo_def db_grupo_defs obtener_montos_configurados_def
        filas_de_la_consulta_def fila_configurada_def Let_def)
  have t: "sn_total_debe_cada_uno (calcular_saldo_neto db_saldo 3 2025) = 60"
    using c [THEN conjunct1] by (simp add: df)
  have pr: "sn_pagado_ricardo (calcular_saldo_neto db_saldo 3 2025) = 100"
    using c [THEN conjunct2, THEN conjunct1] by (simp add: db_saldo_def db_grupo_defs)
  have pw: "sn_pagado_wendy (calcular_saldo_neto db_saldo 3 2025) = 0"
    using c [THEN conjunct2, THEN conjunct2, THEN conjunct1]
    by (simp add: db_saldo_def db_grupo_defs)
  have sr: "sn_saldo_ricardo (calcular_saldo_neto db_saldo 3 2025) = - 40"
    using c [THEN conjunct2, THEN conjunct2, THEN conjunct2, THEN conjunct1] by (simp add: t pr)
  have sw: "sn_saldo_wendy (calcular_saldo_neto db_saldo 3 2025) = 60"
    using c [THEN conjunct2, THEN conjunct2, THEN conjunct2, THEN conjunct2] by (simp add: t pw)
  show ?thesis by (intro conjI df t pr pw sr sw)
qed

text \<open>
  Claim C3 at \<open>db_fijo_con_monto_del_mes\<close>. The row of the query for \<open>Luz\<close> keeps the
  base amount 40 of the fixed expense, but \<open>obtener_monto_del_mes\<close> returns the stored
  150, and the total of the group is 150 + 60 = 210, not 40 + 60.
\<close>
theorem grupo_usa_monto_del_mes_de_gasto_fijo:
  "map (\<lambda>r. (fc_id r, fc_tipo_monto r, fc_monto_total r))
     (obtener_montos_configurados db_fijo_con_monto_del_mes 3 2025) =
     [(1, ''fijo'', 40), (2, ''fijo'', 60), (3, ''fijo'', 50)] \<and>
   obtener_monto_del_mes db_fijo_con_monto_del_mes 1 3 2025 = 150 \<and>
   calcular_tabla_mensual db_fijo_con_monto_del_mes 3 2025 =
     Some [\<lparr>ft_id = IdGrupo 1, ft_monto_total = 210, ft_frecuencia = ''Grupo'',
             ft_debe_ricardo = Num 70, ft_debe_wendy = Num 140,
             ft_ricardo_pago = True, ft_wendy_pago = False\<rparr>,
           \<lparr>ft_id = IdGasto 3, ft_monto_total = 50, ft_frecuencia = ''Mensual'',
             ft_debe_ricardo = Num 30, ft_debe_wendy = Num 20,
             ft_ricardo_pago = False, ft_wendy_pago = False\<rparr>]"
  by (simp add: tabla_defs db_fijo_con_monto_del_mes_def establecer_monto_del_mes_def
      db_grupo_defs)

subsection \<open>Paid weeks\<close>













subsection \<open>The row of a group\<close>

lemma filas_de_la_consulta_gasto:
  "(g, m) \<in> set (filas_de_la_consulta conn mes anio) \<Longrightarrow>
   g \<in> set (gastos_mensuales conn) \<and> gm_activo g = 1"
proof -
  assume "(g, m) \<in> set (filas_de_la_consulta conn mes anio)"
  then obtain x where x: "x \<in> set (gastos_mensuales conn)" "gm_activo x = 1" and
    gm: "(g, m) \<in> set (case filter (\<lambda>m. gm_id x = mm_gasto_id m \<and> mm_mes m = mes \<and> mm_anio m = anio)
                              (montos_mensuales conn) of
                         [] \<Rightarrow> [(x, None)]
                       | ms \<Rightarrow> map (\<lambda>m. (x, Some m)) ms)"
    unfolding filas_de_la_consulta_def by auto
  have "g = x"
  proof (cases "filter (\<lambda>m. gm_id x = mm_gasto_id m \<and> mm_mes m = mes \<and> mm_anio m = anio)
                  (montos_mensuales conn)")
    case Nil
    with gm show ?thesis by simp
  next
    case (Cons a as)
    with gm show ?thesis by auto
  qed
  with x show ?thesis by simp
qed

lemma filas_de_la_consulta_de_gasto:
  assumes "g \<in> set (gastos_mensuales conn)" "gm_activo g = 1"
  shows "\<exists>m. (g, m) \<in> set (filas_de_la_consulta conn mes anio)"
proof -
  define filas where "filas =
    (case filter (\<lambda>m. gm_id g = mm_gasto_id m \<and> mm_mes m = mes \<and> mm_anio m = anio)
            (montos_mensuales conn) of
       [] \<Rightarrow> [(g, None)]
     | ms \<Rightarrow> map (\<lambda>m. (g, Some m)) ms)"
  have "\<exists>m. (g, m) \<in> set filas"
    by (auto simp add: filas_def split: list.split)
  moreover have "set filas \<subseteq> set (filas_de_la_consulta conn mes anio)"
    using assms unfolding filas_de_la_consulta_def filas_def by auto
  ultimately show ?thesis by blast
qed

text \<open>The rows of the data frame are the rows of the query, cell by cell.\<close>
lemma obtener_montos_configurados_filas:
  "\<exists>hay_r hay_w hay_p.
     obtener_montos_configurados conn mes anio =
       map (\<lambda>(g, m). fila_configurada hay_r hay_w hay_p g m) (filas_de_la_consulta conn mes anio)"
  unfolding obtener_montos_configurados_def Let_def by blast

lemma obtener_montos_configurados_fila:
  assumes "r \<in> set (obtener_montos_configurados conn mes anio)"
  shows "\<exists>g \<in> set (gastos_mensuales conn). gm_activo g = 1 \<and> fc_id r = gm_id g \<and>
           fc_frecuencia r = gm_frecuencia g \<and>
           (gm_tipo_monto g \<noteq> ''variable'' \<longrightarrow> fc_monto_total r = gm_monto_total g)"
proof -
  from obtener_montos_configurados_filas [of conn mes anio] assms
  obtain hay_r hay_w hay_p g m where
    gm: "(g, m) \<in> set (filas_de_la_consulta conn mes anio)" and
    r: "r = fila_configurada hay_r hay_w hay_p g m"
    by auto
  from r have "fc_id r = gm_id g \<and> fc_frecuencia r = gm_frecuencia g \<and>
      (gm_tipo_monto g \<noteq> ''variable'' \<longrightarrow> fc_monto_total r = gm_monto_total g)"
    by (simp add: fila_configurada_def)
  with filas_de_la_consulta_gasto [OF gm] show ?thesis by blast
qed

lemma obtener_montos_configurados_de_gasto:
  assumes "g \<in> set (gastos_mensuales conn)" "gm_activo g = 1"
  shows "\<exists>r \<in> set (obtener_montos_configurados conn mes anio). fc_id r = gm_id g"
proof -
  from filas_de_la_consulta_de_gasto [OF assms, of mes anio] obtain m where
    gm: "(g, m) \<in> set (filas_de_la_consulta conn mes anio)" by blast
  from obtener_montos_configurados_filas [of conn mes anio] obtain hay_r hay_w hay_p where
    eq: "obtener_montos_configurados conn mes anio =
       map (\<lambda>(g, m). fila_configurada hay_r hay_w hay_p g m) (filas_de_la_consulta conn mes anio)"
    by blast
  have "fila_configurada hay_r hay_w hay_p g m \<in> set (obtener_montos_configurados conn mes anio)"
    unfolding eq using gm by force
  moreover have "fc_id (fila_configurada hay_r hay_w hay_p g m) = gm_id g"
    by (simp add: fila_configurada_def)
  ultimately show ?thesis by blast
qed

lemma miembros_activos_en_tabla:
  "g \<in> set (miembros_activos conn grupo_id) \<Longrightarrow>
   g \<in> set (gastos_mensuales conn) \<and> gm_activo g = 1"
  by (auto simp add: miembros_activos_def)

text \<open>With the primary key, the first row of \<open>gastos_df\<close> with the id of an expense is its own.\<close>
lemma frecuencia_en_gastos_df:
  assumes "distinct (map gm_id (gastos_mensuales conn))"
    and "g \<in> set (gastos_mensuales conn)" "gm_activo g = 1"
  shows "\<exists>r resto. filter (\<lambda>r. fc_id r = gm_id g) (obtener_montos_configurados conn mes anio) =
           r # resto \<and> fc_frecuencia r = gm_frecuencia g"
proof -
  let ?f = "filter (\<lambda>r. fc_id r = gm_id g) (obtener_montos_configurados conn mes anio)"
  from obtener_montos_configurados_de_gasto [OF assms(2,3), of mes anio]
  have "?f \<noteq> []" by (simp add: filter_empty_conv)
  then obtain r resto where f: "?f = r # resto" by (cases ?f) simp_all
  then have "r \<in> set ?f" by simp
  then have r: "r \<in> set (obtener_montos_configurados conn mes anio)" "fc_id r = gm_id g"
    by simp_all
  from obtener_montos_configurados_fila [OF r(1)] obtain g' where
    g': "g' \<in> set (gastos_mensuales conn)" "fc_id r = gm_id g'"
      "fc_frecuencia r = gm_frecuencia g'"
    by blast
  have "inj_on gm_id (set (gastos_mensuales conn))"
    using assms(1) by (simp add: distinct_map)
  with g'(1,2) assms(2) r(2) have "g' = g" by (auto dest: inj_onD)
  with f g'(3) show ?thesis by blast
qed

lemma calcular_monto_mensual_segun_frecuencia_retorna:
  assumes "fecha_soportada mes anio"
  shows "\<exists>v. calcular_monto_mensual_segun_frecuencia b f mes anio = Some v"
proof -
  from calcular_semanas_del_mes_4_5 [OF assms] obtain n where
    n: "calcular_semanas_del_mes mes anio = Some n" by blast
  show ?thesis
  proof (cases "f = ''Semanal''")
    case True
    then show ?thesis by (simp add: calcular_monto_mensual_segun_frecuencia_def n)
  next
    case False
    then have "calcular_monto_mensual_segun_frecuencia b f mes anio =
      Some (if f = ''Quincenal'' then b * 2 else if f = ''Anual'' then b / 12 else b)"
      by (simp add: calcular_monto_mensual_segun_frecuencia_def)
    then show ?thesis by blast
  qed
qed

lemma those_map_retorna:
  "(\<And>x. x \<in> set xs \<Longrightarrow> \<exists>v. f x = Some v) \<Longrightarrow> \<exists>vs. those (map f xs) = Some vs"
  by (induction xs) fastforce+

text \<open>
  The inner loop adds, for each expense of the group, the converted amount of the month,
  and records its id.
\<close>
lemma sumar_gastos_grupo_eq:
  assumes dist: "distinct (map gm_id (gastos_mensuales conn))"
  shows "\<forall>g \<in> set gs. g \<in> set (gastos_mensuales conn) \<and> gm_activo g = 1 \<Longrightarrow>
    those (map (\<lambda>g. calcular_monto_mensual_segun_frecuencia
                   (obtener_monto_del_mes conn (gm_id g) mes anio) (gm_frecuencia g) mes anio)
             gs) = Some ms \<Longrightarrow>
    sumar_gastos_grupo conn (obtener_montos_configurados conn mes anio) mes anio
      (map (\<lambda>g. (gm_id g, gm_concepto g, gm_monto_total g)) gs) (t, ps) =
    Some (t + sum_list ms, ps \<union> gm_id ` set gs)"
proof (induction gs arbitrary: t ps ms)
  case Nil
  then show ?case by simp
next
  case (Cons g gs)
  from Cons.prems(2) obtain v vs where
    v: "calcular_monto_mensual_segun_frecuencia
          (obtener_monto_del_mes conn (gm_id g) mes anio) (gm_frecuencia g) mes anio = Some v"
    and vs: "those (map (\<lambda>g. calcular_monto_mensual_segun_frecuencia
                   (obtener_monto_del_mes conn (gm_id g) mes anio) (gm_frecuencia g) mes anio)
             gs) = Some vs"
    and ms: "ms = v # vs"
    by (auto split: option.splits)
  from Cons.prems(1) have g: "g \<in> set (gastos_mensuales conn)" "gm_activo g = 1"
    and gs: "\<forall>g \<in> set gs. g \<in> set (gastos_mensuales conn) \<and> gm_activo g = 1"
    by simp_all
  from frecuencia_en_gastos_df [OF dist g, of mes anio] obtain r resto where
    r: "filter (\<lambda>r. fc_id r = gm_id g) (obtener_montos_configurados conn mes anio) = r # resto"
      "fc_frecuencia r = gm_frecuencia g"
    by blast
  have "sumar_gastos_grupo conn (obtener_montos_configurados conn mes anio) mes anio
      (map (\<lambda>g. (gm_id g, gm_concepto g, gm_monto_total g)) (g # gs)) (t, ps) =
    sumar_gastos_grupo conn (obtener_montos_configurados conn mes anio) mes anio
      (map (\<lambda>g. (gm_id g, gm_concepto g, gm_monto_total g)) gs)
      (t + v, insert (gm_id g) ps)"
    by (simp add: r v)
  also have "\<dots> = Some (t + v + sum_list vs, insert (gm_id g) ps \<union> gm_id ` set gs)"
    by (rule Cons.IH [OF gs vs])
  finally show ?case by (simp add: ms add.assoc)
qed

lemma fila_de_gasto_retorna:
  assumes "fecha_soportada mes anio"
  shows "\<exists>fila. fila_de_gasto conn mes anio gasto = Some fila"
proof -
  from calcular_semanas_del_mes_4_5 [OF assms] obtain n where
    n: "calcular_semanas_del_mes mes anio = Some n" by blast
  from calcular_monto_mensual_segun_frecuencia_retorna [OF assms] obtain v where
    v: "calcular_monto_mensual_segun_frecuencia (fc_monto_total gasto) (fc_frecuencia gasto)
          mes anio = Some v" by blast
  show ?thesis
    by (simp add: fila_de_gasto_def Let_def v n split: prod.split)
qed

text \<open>The loop over the expenses only appends rows.\<close>
lemma procesar_gastos_retorna:
  assumes "fecha_soportada mes anio"
  shows "\<exists>filas. procesar_gastos conn mes anio ps gastos_df resultados =
           Some (resultados @ filas)"
proof (induction gastos_df arbitrary: resultados)
  case Nil
  then show ?case by simp
next
  case (Cons gasto resto)
  from fila_de_gasto_retorna [OF assms] obtain fila where
    f: "fila_de_gasto conn mes anio gasto = Some fila" by blast
  from Cons.IH [of resultados] obtain filas1 where
    s1: "procesar_gastos conn mes anio ps resto resultados = Some (resultados @ filas1)"
    by blast
  from Cons.IH [of "resultados @ [fila]"] obtain filas2 where
    s2: "procesar_gastos conn mes anio ps resto (resultados @ [fila]) =
      Some (resultados @ fila # filas2)"
    by auto
  show ?case
  proof (cases "fc_id gasto \<in> ps \<or> fc_tipo_distribucion gasto = ''agrupado''")
    case True
    then have "procesar_gastos conn mes anio ps (gasto # resto) resultados =
      procesar_gastos conn mes anio ps resto resultados" by auto
    with s1 show ?thesis by simp
  next
    case False
    then have "procesar_gastos conn mes anio ps (gasto # resto) resultados =
      procesar_gastos conn mes anio ps resto (resultados @ [fila])" by (simp add: f)
    with s2 show ?thesis by simp
  qed
qed

text \<open>
  The loop over the groups only appends rows, one for each group that has expenses: the
  row of the group for the sum of the converted amounts of its expenses.
\<close>
lemma procesar_grupos_retorna:
  assumes dist: "distinct (map gm_id (gastos_mensuales conn))"
    and fecha: "fecha_soportada mes anio"
  shows "\<forall>grupo \<in> set grupos. gr_gastos grupo = gastos_activos_de_grupo conn (gr_id grupo) \<and>
      gr_quien_paga_fijo grupo \<noteq> [] \<Longrightarrow>
    \<exists>filas ps'.
      procesar_grupos conn (obtener_montos_configurados conn mes anio) mes anio grupos
        (resultados, ps) = Some (resultados @ filas, ps') \<and>
      (\<forall>grupo \<in> set grupos. gr_gastos grupo \<noteq> [] \<longrightarrow>
         (\<exists>ms. those (map (\<lambda>g. calcular_monto_mensual_segun_frecuencia
                             (obtener_monto_del_mes conn (gm_id g) mes anio)
                             (gm_frecuencia g) mes anio)
                       (miembros_activos conn (gr_id grupo))) = Some ms \<and>
               fila_de_grupo conn mes anio grupo (sum_list ms) \<in> set filas))"
proof (induction grupos arbitrary: resultados ps)
  case Nil
  then show ?case by simp
next
  case (Cons grupo resto)
  let ?df = "obtener_montos_configurados conn mes anio"
  let ?monto = "\<lambda>g. calcular_monto_mensual_segun_frecuencia
                   (obtener_monto_del_mes conn (gm_id g) mes anio) (gm_frecuencia g) mes anio"
  from Cons.prems have
    gg: "gr_gastos grupo = gastos_activos_de_grupo conn (gr_id grupo)" and
    quien: "gr_quien_paga_fijo grupo \<noteq> []" and
    rest: "\<forall>grupo \<in> set resto. gr_gastos grupo = gastos_activos_de_grupo conn (gr_id grupo) \<and>
      gr_quien_paga_fijo grupo \<noteq> []"
    by simp_all
  show ?case
  proof (cases "gr_gastos grupo = []")
    case True
    from Cons.IH [OF rest, of resultados ps] obtain filas ps' where
      p: "procesar_grupos conn ?df mes anio resto (resultados, ps) =
            Some (resultados @ filas, ps')" and
      q: "\<forall>grupo \<in> set resto. gr_gastos grupo \<noteq> [] \<longrightarrow>
         (\<exists>ms. those (map ?monto (miembros_activos conn (gr_id grupo))) = Some ms \<and>
               fila_de_grupo conn mes anio grupo (sum_list ms) \<in> set filas)"
      by blast
    have "procesar_grupos conn ?df mes anio (grupo # resto) (resultados, ps) =
        Some (resultados @ filas, ps')"
      using True p by simp
    moreover have "\<forall>grupo \<in> set (grupo # resto). gr_gastos grupo \<noteq> [] \<longrightarrow>
         (\<exists>ms. those (map ?monto (miembros_activos conn (gr_id grupo))) = Some ms \<and>
               fila_de_grupo conn mes anio grupo (sum_list ms) \<in> set filas)"
      using True q by simp
    ultimately show ?thesis by blast
  next
    case False
    let ?gs = "miembros_activos conn (gr_id grupo)"
    have mem: "\<forall>g \<in> set ?gs. g \<in> set (gastos_mensuales conn) \<and> gm_activo g = 1"
      using miembros_activos_en_tabla by blast
    from those_map_retorna [of ?gs ?monto]
      calcular_monto_mensual_segun_frecuencia_retorna [OF fecha]
    obtain ms where ms: "those (map ?monto ?gs) = Some ms" by blast
    have s: "sumar_gastos_grupo conn ?df mes anio (gr_gastos grupo) (0, ps) =
        Some (0 + sum_list ms, ps \<union> gm_id ` set ?gs)"
      unfolding gg gastos_activos_de_grupo_def
      by (rule sumar_gastos_grupo_eq [OF dist mem ms])
    define fila where "fila = fila_de_grupo conn mes anio grupo (sum_list ms)"
    from Cons.IH [OF rest, of "resultados @ [fila]" "ps \<union> gm_id ` set ?gs"]
    obtain filas ps' where
      p: "procesar_grupos conn ?df mes anio resto (resultados @ [fila], ps \<union> gm_id ` set ?gs) =
            Some ((resultados @ [fila]) @ filas, ps')" and
      q: "\<forall>grupo \<in> set resto. gr_gastos grupo \<noteq> [] \<longrightarrow>
         (\<exists>ms. those (map ?monto (miembros_activos conn (gr_id grupo))) = Some ms \<and>
               fila_de_grupo conn mes anio grupo (sum_list ms) \<in> set filas)"
      by blast
    have "procesar_grupos conn ?df mes anio (grupo # resto) (resultados, ps) =
        Some (resultados @ (fila # filas), ps')"
      using False s p quien by (simp add: fila_def)
    moreover have "\<forall>grupo \<in> set (grupo # resto). gr_gastos grupo \<noteq> [] \<longrightarrow>
         (\<exists>ms. those (map ?monto (miembros_activos conn (gr_id grupo))) = Some ms \<and>
               fila_de_grupo conn mes anio grupo (sum_list ms) \<in> set (fila # filas))"
      using q ms by (auto simp add: fila_def)
    ultimately show ?thesis by blast
  qed
qed

lemma obtener_grupos_distribucion_gastos:
  "grupo \<in> set (obtener_grupos_distribucion conn) \<Longrightarrow>
   gr_gastos grupo = gastos_activos_de_grupo conn (gr_id grupo)"
  by (auto simp add: obtener_grupos_distribucion_def)

lemma verificar_pago_existente_sin_semana:
  "verificar_pago_existente conn gasto_id mes anio quien None \<longleftrightarrow>
   (\<exists>p \<in> set (pagos conn). pg_gasto_id p = gasto_id \<and> pg_mes p = mes \<and> pg_anio p = anio \<and>
      pg_quien_pago p = quien)"
  by (auto simp add: verificar_pago_existente_def filter_empty_conv)

lemma fila_de_grupo_campos:
  assumes "gr_gastos grupo = gastos_activos_de_grupo conn (gr_id grupo)"
  shows "ft_id (fila_de_grupo conn mes anio grupo t) = IdGrupo (gr_id grupo)"
    and "ft_monto_total (fila_de_grupo conn mes anio grupo t) = t"
    and "gr_quien_paga_fijo grupo = ''Ricardo'' \<Longrightarrow>
      ft_debe_ricardo (fila_de_grupo conn mes anio grupo t) =
        Num (case gr_monto_fijo_ricardo grupo of None \<Rightarrow> 0 | Some v \<Rightarrow> v) \<and>
      ft_debe_wendy (fila_de_grupo conn mes anio grupo t) =
        Num (max 0 (t - (case gr_monto_fijo_ricardo grupo of None \<Rightarrow> 0 | Some v \<Rightarrow> v)))"
    and "gr_quien_paga_fijo grupo = ''Wendy'' \<Longrightarrow>
      ft_debe_wendy (fila_de_grupo conn mes anio grupo t) =
        Num (case gr_monto_fijo_wendy grupo of None \<Rightarrow> 0 | Some v \<Rightarrow> v) \<and>
      ft_debe_ricardo (fila_de_grupo conn mes anio grupo t) =
        Num (max 0 (t - (case gr_monto_fijo_wendy grupo of None \<Rightarrow> 0 | Some v \<Rightarrow> v)))"
    and "ft_ricardo_pago (fila_de_grupo conn mes anio grupo t) \<longleftrightarrow>
      (\<forall>g \<in> set (miembros_activos conn (gr_id grupo)).
         \<exists>p \<in> set (pagos conn). pg_gasto_id p = gm_id g \<and> pg_mes p = mes \<and> pg_anio p = anio \<and>
            pg_quien_pago p = ''Ricardo'')"
    and "ft_wendy_pago (fila_de_grupo conn mes anio grupo t) \<longleftrightarrow>
      (\<forall>g \<in> set (miembros_activos conn (gr_id grupo)).
         \<exists>p \<in> set (pagos conn). pg_gasto_id p = gm_id g \<and> pg_mes p = mes \<and> pg_anio p = anio \<and>
            pg_quien_pago p = ''Wendy'')"
proof -
  show "ft_id (fila_de_grupo conn mes anio grupo t) = IdGrupo (gr_id grupo)"
    by (simp add: fila_de_grupo_def Let_def split: prod.split)
  show "ft_monto_total (fila_de_grupo conn mes anio grupo t) = t"
    by (simp add: fila_de_grupo_def Let_def split: prod.split)
  show "gr_quien_paga_fijo grupo = ''Ricardo'' \<Longrightarrow>
      ft_debe_ricardo (fila_de_grupo conn mes anio grupo t) =
        Num (case gr_monto_fijo_ricardo grupo of None \<Rightarrow> 0 | Some v \<Rightarrow> v) \<and>
      ft_debe_wendy (fila_de_grupo conn mes anio grupo t) =
        Num (max 0 (t - (case gr_monto_fijo_ricardo grupo of None \<Rightarrow> 0 | Some v \<Rightarrow> v)))"
    by (simp add: fila_de_grupo_def Let_def or_default_0)
  show "gr_quien_paga_fijo grupo = ''Wendy'' \<Longrightarrow>
      ft_debe_wendy (fila_de_grupo conn mes anio grupo t) =
        Num (case gr_monto_fijo_wendy grupo of None \<Rightarrow> 0 | Some v \<Rightarrow> v) \<and>
      ft_debe_ricardo (fila_de_grupo conn mes anio grupo t) =
        Num (max 0 (t - (case gr_monto_fijo_wendy grupo of None \<Rightarrow> 0 | Some v \<Rightarrow> v)))"
    by (simp add: fila_de_grupo_def Let_def or_default_0)
  have todos: "list_all (\<lambda>(g_id, _, _). verificar_pago_existente conn g_id mes anio q None)
        (gr_gastos grupo) \<longleftrightarrow>
      (\<forall>g \<in> set (miembros_activos conn (gr_id grupo)).
         \<exists>p \<in> set (pagos conn). pg_gasto_id p = gm_id g \<and> pg_mes p = mes \<and> pg_anio p = anio \<and>
            pg_quien_pago p = q)" for q
    unfolding assms gastos_activos_de_grupo_def
    by (simp add: list_all_iff verificar_pago_existente_sin_semana)
  show "ft_ricardo_pago (fila_de_grupo conn mes anio grupo t) \<longleftrightarrow>
      (\<forall>g \<in> set (miembros_activos conn (gr_id grupo)).
         \<exists>p \<in> set (pagos conn). pg_gasto_id p = gm_id g \<and> pg_mes p = mes \<and> pg_anio p = anio \<and>
            pg_quien_pago p = ''Ricardo'')"
    unfolding todos [symmetric] by (simp add: fila_de_grupo_def Let_def split: prod.split)
  show "ft_wendy_pago (fila_de_grupo conn mes anio grupo t) \<longleftrightarrow>
      (\<forall>g \<in> set (miembros_activos conn (gr_id grupo)).
         \<exists>p \<in> set (pagos conn). pg_gasto_id p = gm_id g \<and> pg_mes p = mes \<and> pg_anio p = anio \<and>
            pg_quien_pago p = ''Wendy'')"
    unfolding todos [symmetric] by (simp add: fila_de_grupo_def Let_def split: prod.split)
qed

text \<open>
  Claim C4. In a supported month, for a database whose expense ids are a key and whose
  active groups all name who pays the fixed amount, every active group with active
  expenses has a row in the table, with the id of the group, such that:
  its total is the sum, over the expenses of the group (joined through the membership
  rows), of the frequency conversion of \<open>obtener_monto_del_mes\<close>; the person named by
  \<open>quien_paga_fijo\<close> owes the fixed amount of the group (0 when unset) and the other
  person owes \<open>max 0 (total - fixed)\<close>; a person is marked as paid exactly when every
  expense of the group has a payment record by that person in that month and year.
\<close>
theorem fila_de_grupo_en_tabla:
  assumes "fecha_soportada mes anio"
    and "distinct (map gm_id (gastos_mensuales conn))"
    and "\<forall>g \<in> set (obtener_grupos_distribucion conn). gr_quien_paga_fijo g \<noteq> []"
    and "grupo \<in> set (obtener_grupos_distribucion conn)"
    and "gr_gastos grupo \<noteq> []"
  shows "\<exists>filas fila ms.
    calcular_tabla_mensual conn mes anio = Some filas \<and> fila \<in> set filas \<and>
    ft_id fila = IdGrupo (gr_id grupo) \<and>
    those (map (\<lambda>g. calcular_monto_mensual_segun_frecuencia
                      (obtener_monto_del_mes conn (gm_id g) mes anio) (gm_frecuencia g) mes anio)
             (miembros_activos conn (gr_id grupo))) = Some ms \<and>
    ft_monto_total fila = sum_list ms \<and>
    (gr_quien_paga_fijo grupo = ''Ricardo'' \<longrightarrow>
       ft_debe_ricardo fila =
         Num (case gr_monto_fijo_ricardo grupo of None \<Rightarrow> 0 | Some v \<Rightarrow> v) \<and>
       ft_debe_wendy fila =
         Num (max 0 (ft_monto_total fila -
                (case gr_monto_fijo_ricardo grupo of None \<Rightarrow> 0 | Some v \<Rightarrow> v)))) \<and>
    (gr_quien_paga_fijo grupo = ''Wendy'' \<longrightarrow>
       ft_debe_wendy fila =
         Num (case gr_monto_fijo_wendy grupo of None \<Rightarrow> 0 | Some v \<Rightarrow> v) \<and>
       ft_debe_ricardo fila =
         Num (max 0 (ft_monto_total fila -
                (case gr_monto_fijo_wendy grupo of None \<Rightarrow> 0 | Some v \<Rightarrow> v)))) \<and>
    (ft_ricardo_pago fila \<longleftrightarrow>
       (\<forall>g \<in> set (miembros_activos conn (gr_id grupo)).
          \<exists>p \<in> set (pagos conn). pg_gasto_id p = gm_id g \<and> pg_mes p = mes \<and> pg_anio p = anio \<and>
             pg_quien_pago p = ''Ricardo'')) \<and>
    (ft_wendy_pago fila \<longleftrightarrow>
       (\<forall>g \<in> set (miembros_activos conn (gr_id grupo)).
          \<exists>p \<in> set (pagos conn). pg_gasto_id p = gm_id g \<and> pg_mes p = mes \<and> pg_anio p = anio \<and>
             pg_quien_pago p = ''Wendy''))"
proof -
  let ?df = "obtener_montos_configurados conn mes anio"
  let ?monto = "\<lambda>g. calcular_monto_mensual_segun_frecuencia
                   (obtener_monto_del_mes conn (gm_id g) mes anio) (gm_frecuencia g) mes anio"
  have gg: "gr_gastos grupo = gastos_activos_de_grupo conn (gr_id grupo)"
    by (rule obtener_grupos_distribucion_gastos [OF assms(4)])
  have "miembros_activos conn (gr_id grupo) \<noteq> []"
    using assms(5) unfolding gg gastos_activos_de_grupo_def by simp
  then obtain g where "g \<in> set (miembros_activos conn (gr_id grupo))"
    by (cases "miembros_activos conn (gr_id grupo)") auto
  then have "g \<in> set (gastos_mensuales conn) \<and> gm_activo g = 1"
    by (rule miembros_activos_en_tabla)
  then have df: "?df \<noteq> []"
    using obtener_montos_configurados_de_gasto [of g conn mes anio] by auto
  have todos: "\<forall>grupo \<in> set (obtener_grupos_distribucion conn).
      gr_gastos grupo = gastos_activos_de_grupo conn (gr_id grupo) \<and>
      gr_quien_paga_fijo grupo \<noteq> []"
    using obtener_grupos_distribucion_gastos assms(3) by blast
  from procesar_grupos_retorna [OF assms(2,1) todos, of "[]" "{}"]
  obtain filas1 ps where
    p: "procesar_grupos conn ?df mes anio (obtener_grupos_distribucion conn) ([], {}) =
          Some (filas1, ps)" and
    q: "\<forall>grupo \<in> set (obtener_grupos_distribucion conn). gr_gastos grupo \<noteq> [] \<longrightarrow>
         (\<exists>ms. those (map ?monto (miembros_activos conn (gr_id grupo))) = Some ms \<and>
               fila_de_grupo conn mes anio grupo (sum_list ms) \<in> set filas1)"
    by auto
  from q assms(4,5) obtain ms where
    ms: "those (map ?monto (miembros_activos conn (gr_id grupo))) = Some ms" and
    en: "fila_de_grupo conn mes anio grupo (sum_list ms) \<in> set filas1"
    by blast
  from procesar_gastos_retorna [OF assms(1), of conn ps ?df filas1] obtain filas2 where
    r: "procesar_gastos conn mes anio ps ?df filas1 = Some (filas1 @ filas2)"
    by blast
  have t: "calcular_tabla_mensual conn mes anio = Some (filas1 @ filas2)"
    using df p r by (simp add: calcular_tabla_mensual_def)
  define fila where "fila = fila_de_grupo conn mes anio grupo (sum_list ms)"
  have en': "fila \<in> set (filas1 @ filas2)" using en by (simp add: fila_def)
  note c = fila_de_grupo_campos [OF gg, of mes anio "sum_list ms", folded fila_def]
  have tot: "ft_monto_total fila = sum_list ms" by (rule c(2))
  have "ft_id fila = IdGrupo (gr_id grupo) \<and>
    those (map ?monto (miembros_activos conn (gr_id grupo))) = Some ms \<and>
    ft_monto_total fila = sum_list ms \<and>
    (gr_quien_paga_fijo grupo = ''Ricardo'' \<longrightarrow>
       ft_debe_ricardo fila =
         Num (case gr_monto_fijo_ricardo grupo of None \<Rightarrow> 0 | Some v \<Rightarrow> v) \<and>
       ft_debe_wendy fila =
         Num (max 0 (ft_monto_total fila -
                (case gr_monto_fijo_ricardo grupo of None \<Rightarrow> 0 | Some v \<Rightarrow> v)))) \<and>
    (gr_quien_paga_fijo grupo = ''Wendy'' \<longrightarrow>
       ft_debe_wendy fila =
         Num (case gr_monto_fijo_wendy grupo of None \<Rightarrow> 0 | Some v \<Rightarrow> v) \<and>
       ft_debe_ricardo fila =
         Num (max 0 (ft_monto_total fila -
                (case gr_monto_fijo_wendy grupo of None \<Rightarrow> 0 | Some v \<Rightarrow> v)))) \<and>
    (ft_ricardo_pago fila \<longleftrightarrow>
       (\<forall>g \<in> set (miembros_activos conn (gr_id grupo)).
          \<exists>p \<in> set (pagos conn). pg_gasto_id p = gm_id g \<and> pg_mes p = mes \<and> pg_anio p = anio \<and>
             pg_quien_pago p = ''Ricardo'')) \<and>
    (ft_wendy_pago fila \<longleftrightarrow>
       (\<forall>g \<in> set (miembros_activos conn (gr_id grupo)).
          \<exists>p \<in> set (pagos conn). pg_gasto_id p = gm_id g \<and> pg_mes p = mes \<and> pg_anio p = anio \<and>
             pg_quien_pago p = ''Wendy''))"
    unfolding tot by (intro conjI impI c(1) ms refl c(3) c(4) c(5) c(6)) assumption+
  with t en' show ?thesis by blast
qed

text \<open>
  The group of \<open>db_grupo\<close> in March 2025: expenses of 40 and 60, Ricardo fixed at 70. The
  total is 100, Ricardo owes 70 and Wendy 30; Ricardo has paid both expenses and is marked
  as paid, Wendy has paid one of them and is not.
\<close>
theorem fila_de_grupo_en_tabla_witness:
  "fecha_soportada 3 2025 \<and>
   distinct (map gm_id (gastos_mensuales db_grupo)) \<and>
   obtener_grupos_distribucion db_grupo =
     [\<lparr>gr_id = 1, gr_nombre = ''Servicios'', gr_descripcion = ''Casa'',
       gr_monto_fijo_ricardo = Some 70, gr_monto_fijo_wendy = None,
       gr_quien_paga_fijo = ''Ricardo'',
       gr_gastos = [(1, ''Luz'', 40), (2, ''Agua'', 60)]\<rparr>] \<and>
   calcular_tabla_mensual db_grupo 3 2025 =
     Some [\<lparr>ft_id = IdGrupo 1, ft_monto_total = 100, ft_frecuencia = ''Grupo'',
             ft_debe_ricardo = Num 70, ft_debe_wendy = Num 30,
             ft_ricardo_pago = True, ft_wendy_pago = False\<rparr>,
           \<lparr>ft_id = IdGasto 3, ft_monto_total = 50, ft_frecuencia = ''Mensual'',
             ft_debe_ricardo = Num 30, ft_debe_wendy = Num 20,
             ft_ricardo_pago = False, ft_wendy_pago = False\<rparr>] \<and>
   (\<exists>filas fila ms. calcular_tabla_mensual db_grupo 3 2025 = Some filas \<and> fila \<in> set filas \<and>
      ft_id fila = IdGrupo 1 \<and>
      those (map (\<lambda>g. calcular_monto_mensual_segun_frecuencia
                        (obtener_monto_del_mes db_grupo (gm_id g) 3 2025) (gm_frecuencia g) 3 2025)
               (miembros_activos db_grupo 1)) = Some ms \<and>
      ft_monto_total fila = sum_list ms \<and>
      ft_debe_ricardo fila = Num 70 \<and>
      ft_debe_wendy fila = Num (max 0 (ft_monto_total fila - 70)))"
proof -
  define grupo where "grupo =
    \<lparr>gr_id = 1, gr_nombre = ''Servicios'', gr_descripcion = ''Casa'',
     gr_monto_fijo_ricardo = Some (70::real), gr_monto_fijo_wendy = None,
     gr_quien_paga_fijo = ''Ricardo'',
     gr_gastos = [(1::int, ''Luz'', 40::real), (2, ''Agua'', 60)]\<rparr>"
  have fs: "fecha_soportada 3 2025" by (simp add: fecha_soportada_def)
  have d: "distinct (map gm_id (gastos_mensuales db_grupo))"
    by (simp add: db_grupo_defs)
  have gs: "obtener_grupos_distribucion db_grupo = [grupo]"
    by (simp add: obtener_grupos_distribucion_def gastos_activos_de_grupo_def
        miembros_activos_def db_grupo_defs grupo_def)
  have t: "calcular_tabla_mensual db_grupo 3 2025 =
     Some [\<lparr>ft_id = IdGrupo 1, ft_monto_total = 100, ft_frecuencia = ''Grupo'',
             ft_debe_ricardo = Num 70, ft_debe_wendy = Num 30,
             ft_ricardo_pago = True, ft_wendy_pago = False\<rparr>,
           \<lparr>ft_id = IdGasto 3, ft_monto_total = 50, ft_frecuencia = ''Mensual'',
             ft_debe_ricardo = Num 30, ft_debe_wendy = Num 20,
             ft_ricardo_pago = False, ft_wendy_pago = False\<rparr>]"
    by (simp add: tabla_defs db_grupo_defs)
  have en: "grupo \<in> set (obtener_grupos_distribucion db_grupo)" by (simp add: gs)
  have qp: "\<forall>g \<in> set (obtener_grupos_distribucion db_grupo). gr_quien_paga_fijo g \<noteq> []"
    by (simp add: gs grupo_def)
  have ne: "gr_gastos grupo \<noteq> []" by (simp add: grupo_def)
  from fila_de_grupo_en_tabla [OF fs d qp en ne] obtain filas fila ms where
    f: "calcular_tabla_mensual db_grupo 3 2025 = Some filas" "fila \<in> set filas"
      "ft_id fila = IdGrupo (gr_id grupo)"
      "those (map (\<lambda>g. calcular_monto_mensual_segun_frecuencia
                        (obtener_monto_del_mes db_grupo (gm_id g) 3 2025) (gm_frecuencia g) 3 2025)
               (miembros_activos db_grupo (gr_id grupo))) = Some ms"
      "ft_monto_total fila = sum_list ms"
      "gr_quien_paga_fijo grupo = ''Ricardo'' \<longrightarrow>
         ft_debe_ricardo fila =
           Num (case gr_monto_fijo_ricardo grupo of None \<Rightarrow> 0 | Some v \<Rightarrow> v) \<and>
         ft_debe_wendy fila =
           Num (max 0 (ft_monto_total fila -
                  (case gr_monto_fijo_ricardo grupo of None \<Rightarrow> 0 | Some v \<Rightarrow> v)))"
    by blast
  have id: "gr_id grupo = 1" by (simp add: grupo_def)
  have q: "ft_debe_ricardo fila = Num 70"
      "ft_debe_wendy fila = Num (max 0 (ft_monto_total fila - 70))"
    using f(6) by (simp_all add: grupo_def)
  from f(1,2,3,4,5) q have ex: "\<exists>filas fila ms.
      calcular_tabla_mensual db_grupo 3 2025 = Some filas \<and> fila \<in> set filas \<and>
      ft_id fila = IdGrupo 1 \<and>
      those (map (\<lambda>g. calcular_monto_mensual_segun_frecuencia
                        (obtener_monto_del_mes db_grupo (gm_id g) 3 2025) (gm_frecuencia g) 3 2025)
               (miembros_activos db_grupo 1)) = Some ms \<and>
      ft_monto_total fila = sum_list ms \<and>
      ft_debe_ricardo fila = Num 70 \<and>
      ft_debe_wendy fila = Num (max 0 (ft_monto_total fila - 70))"
    unfolding id by blast
  show ?thesis by (intro conjI fs d gs [unfolded grupo_def] t ex)
qed

text \<open>
  Without a name of who pays the fixed amount the table cannot be built: the label of the
  group's row raises.
\<close>
lemma tabla_de_grupo_sin_quien_paga:
  "calcular_tabla_mensual
     (db_grupo\<lparr>grupos_distribucion :=
        map (\<lambda>gd. gd\<lparr>gd_quien_paga_fijo := []\<rparr>) (grupos_distribucion db_grupo)\<rparr>)
     3 2025 = None"
  by (simp add: tabla_defs db_grupo_defs)

end
